theory Spec2Isabelle
  imports Main
begin

section \<open>The browser-automation interface the two scripts drive\<close>

text \<open>
  The repository holds two scripts, \<^verbatim>\<open>verify_flash.py\<close> and \<^verbatim>\<open>verify_spacing.py\<close>.
  Both are straight-line sequences of calls into a browser-automation library against a
  page they do not own. The scripts are embedded as state-passing programs over a
  \<open>world\<close>; every operation either returns or raises, and which of the two happens
  is decided by an environment \<open>env\<close> that stands for the invocation directory, the
  browser and the loaded application. Nothing is assumed about the environment: every
  theorem below is for all environments.
\<close>

subsection \<open>Locators and calls\<close>

text \<open>
  \<^verbatim>\<open>page.locator(sel)\<close> is \<open>Css sel\<close>, \<^verbatim>\<open>page.locator(sel, has_text=t)\<close> is
  \<open>CssHasText sel t\<close>, \<^verbatim>\<open>get_by_role(role, name=n)\<close> is \<open>Role role n\<close>, and a locator
  built from another locator (\<^verbatim>\<open>entry_element.locator(...)\<close>,
  \<^verbatim>\<open>entry_element.get_by_role(...)\<close>) is \<open>Inside parent child\<close>.
\<close>

datatype locator =
    Css string
  | CssHasText string string
  | Role string string
  | Inside locator locator

text \<open>
  One constructor per operation of the scripts that can raise: the library calls, and
  \<^verbatim>\<open>os.path.abspath(name)\<close>, which reads the invocation directory. Pages and contexts
  are named by the number the browser gave them when they were created. A timeout is
  \<open>Some ms\<close> when the script passes \<^verbatim>\<open>timeout=ms\<close> and \<open>None\<close> when it leaves the
  library's default. \<open>Click\<close> is the simulated pointer click of \<^verbatim>\<open>locator.click()\<close>;
  \<open>DispatchEvent\<close> is \<^verbatim>\<open>locator.dispatch_event(type)\<close>, which fires the DOM event
  directly.
\<close>

datatype call =
    StartDriver
  | Launch "bool option"
  | BrowserNewPage
  | BrowserNewContext
  | AddInitScript nat string
  | ContextNewPage nat
  | Goto nat string
  | Fill nat locator string
  | Click nat locator
  | DispatchEvent nat locator string
  | ExpectVisible nat locator "nat option"
  | ExpectNotVisible nat locator "nat option"
  | PageScreenshot nat string
  | LocatorScreenshot nat locator string
  | PageClose nat
  | BrowserClose
  | Abspath string

datatype exn = Exception string

text \<open>
  What the polling of a visibility assertion ends with inside its timeout: no visible
  element matches (\<open>Hidden\<close>), the locator resolves to exactly one element and it is
  visible (\<open>Single\<close>), or the locator resolves to more than one element (\<open>Ambiguous\<close>,
  which the library's strict locators report as an error).
\<close>

datatype match = Hidden | Single | Ambiguous

type_synonym history = "(call \<times> bool) list"

text \<open>
  The environment. \<open>cwd\<close> is the invocation directory, \<open>None\<close> when that directory no
  longer exists. \<open>raises h c\<close> says whether the browser operation \<open>c\<close>, issued after the
  calls \<open>h\<close>, raises. \<open>observe h c\<close> is what the visibility assertion \<open>c\<close> ends with.
  \<open>message c\<close> is the text of the exception a failing call carries. \<open>console h c\<close> lists
  the console messages (page, text) that the library receives from the loaded pages
  while the library call \<open>c\<close> is in progress.
\<close>

record env =
  cwd :: "string option"
  raises :: "history \<Rightarrow> call \<Rightarrow> bool"
  observe :: "history \<Rightarrow> call \<Rightarrow> match"
  message :: "call \<Rightarrow> string"
  console :: "history \<Rightarrow> call \<Rightarrow> (nat \<times> string) list"

text \<open>
  The state of the browser: the contexts and pages created so far, the initialization
  scripts registered on each context, the context of each page, the pages closed, the page
  loads (which page, and the initialization scripts that ran before the page's own
  scripts), the screenshot files written, and whether the browser process is open:
  launched, and neither closed by a call of \<^verbatim>\<open>browser.close()\<close> nor ended with the
  driver that launched it.
\<close>

record browser =
  n_contexts :: nat
  init_scripts :: "nat \<Rightarrow> string list"
  n_pages :: nat
  page_context :: "nat \<Rightarrow> nat"
  closed_pages :: "nat list"
  loads :: "(nat \<times> string list) list"
  files :: "string list"
  is_open :: bool

text \<open>
  What a call that returns does to the browser. \<^verbatim>\<open>browser.new_page()\<close> creates a page
  in a context of its own; \<^verbatim>\<open>context.new_page()\<close> creates it in the given context. A
  navigation runs the initialization scripts of the page's context before the scripts of
  the page itself. A screenshot writes its file.
\<close>

fun effect :: "call \<Rightarrow> browser \<Rightarrow> browser" where
  "effect StartDriver b = b"
| "effect (Launch headless) b = b\<lparr>is_open := True\<rparr>"
| "effect BrowserNewPage b =
     b\<lparr>page_context := (page_context b)(n_pages b := n_contexts b),
       n_pages := Suc (n_pages b), n_contexts := Suc (n_contexts b)\<rparr>"
| "effect BrowserNewContext b = b\<lparr>n_contexts := Suc (n_contexts b)\<rparr>"
| "effect (AddInitScript c s) b = b\<lparr>init_scripts := (init_scripts b)(c := init_scripts b c @ [s])\<rparr>"
| "effect (ContextNewPage c) b =
     b\<lparr>page_context := (page_context b)(n_pages b := c), n_pages := Suc (n_pages b)\<rparr>"
| "effect (Goto p url) b = b\<lparr>loads := loads b @ [(p, init_scripts b (page_context b p))]\<rparr>"
| "effect (Fill p l s) b = b"
| "effect (Click p l) b = b"
| "effect (DispatchEvent p l ty) b = b"
| "effect (ExpectVisible p l t) b = b"
| "effect (ExpectNotVisible p l t) b = b"
| "effect (PageScreenshot p path) b = b\<lparr>files := files b @ [path]\<rparr>"
| "effect (LocatorScreenshot p l path) b = b\<lparr>files := files b @ [path]\<rparr>"
| "effect (PageClose p) b = b\<lparr>closed_pages := closed_pages b @ [p]\<rparr>"
| "effect BrowserClose b = b\<lparr>is_open := False\<rparr>"
| "effect (Abspath name) b = b"

text \<open>
  The world a script acts on: the history of operations with their outcome (\<open>True\<close> for
  one that returned), the console handlers registered on each page, the lines printed to
  standard output, the browser, and whether the driver is running.
\<close>

record world =
  history :: history
  handlers :: "nat \<Rightarrow> (string \<Rightarrow> string) list"
  stdout :: "string list"
  browser :: browser
  driver_running :: bool

definition initial :: world where
  "initial = \<lparr>history = [], handlers = (\<lambda>_. []), stdout = [],
     browser = \<lparr>n_contexts = 0, init_scripts = (\<lambda>_. []), n_pages = 0, page_context = (\<lambda>_. 0),
       closed_pages = [], loads = [], files = [], is_open = False\<rparr>,
     driver_running = False\<rparr>"

type_synonym 'a prog = "world \<Rightarrow> (exn + 'a) \<times> world"

subsection \<open>Sequencing, exceptions and scoped blocks\<close>

definition and_then :: "'a prog \<Rightarrow> ('a \<Rightarrow> 'b prog) \<Rightarrow> 'b prog" where
  "and_then m k w = (case m w of (Inl x, w') \<Rightarrow> (Inl x, w') | (Inr a, w') \<Rightarrow> k a w')"

definition print_line :: "string \<Rightarrow> unit prog" where
  "print_line s w = (Inr (), w\<lparr>stdout := stdout w @ [s]\<rparr>)"

text \<open>
  \<^verbatim>\<open>try: body  except Exception as e: handler(e)  finally: final\<close>. The \<open>finally\<close> block
  runs on every path; an exception it raises replaces the pending result.
\<close>

definition try_except_finally :: "unit prog \<Rightarrow> (exn \<Rightarrow> unit prog) \<Rightarrow> unit prog \<Rightarrow> unit prog" where
  "try_except_finally body handler final w =
     (case (case body w of (Inl x, w1) \<Rightarrow> handler x w1 | (Inr u, w1) \<Rightarrow> (Inr u, w1)) of
        (r, w2) \<Rightarrow> (case final w2 of (Inl y, w3) \<Rightarrow> (Inl y, w3) | (Inr u, w3) \<Rightarrow> (r, w3)))"

subsection \<open>Library calls\<close>

text \<open>
  A visibility assertion returns exactly when its polling ends as asked: \<open>to_be_visible\<close>
  needs \<open>Single\<close>, \<open>not_to_be_visible\<close> needs \<open>Hidden\<close>. \<^verbatim>\<open>os.path.abspath\<close> raises
  (\<^verbatim>\<open>FileNotFoundError\<close>) exactly when the invocation directory no longer exists. Every
  other call raises when the environment says so.
\<close>

definition fails :: "env \<Rightarrow> history \<Rightarrow> call \<Rightarrow> bool" where
  "fails e h c =
     (case c of
        ExpectVisible p l t \<Rightarrow> observe e h c \<noteq> Single
      | ExpectNotVisible p l t \<Rightarrow> observe e h c \<noteq> Hidden
      | Abspath name \<Rightarrow> cwd e = None
      | _ \<Rightarrow> raises e h c)"

text \<open>
  While a library call is in progress the library dispatches the console messages of the
  pages to the handlers registered on the emitting page; a handler's result is the line it
  prints. Nothing is dispatched during \<^verbatim>\<open>os.path.abspath\<close>, which does not enter the
  library.
\<close>

definition arriving :: "env \<Rightarrow> history \<Rightarrow> call \<Rightarrow> (nat \<times> string) list" where
  "arriving e h c = (case c of Abspath name \<Rightarrow> [] | _ \<Rightarrow> console e h c)"

definition console_lines :: "env \<Rightarrow> (nat \<Rightarrow> (string \<Rightarrow> string) list) \<Rightarrow> history \<Rightarrow> call \<Rightarrow> string list" where
  "console_lines e hs h c = concat (map (\<lambda>(p, text). map (\<lambda>f. f text) (hs p)) (arriving e h c))"

definition deliver :: "env \<Rightarrow> call \<Rightarrow> world \<Rightarrow> world" where
  "deliver e c w = w\<lparr>stdout := stdout w @ console_lines e (handlers w) (history w) c\<rparr>"

text \<open>
  One library call: console messages are delivered, the call is recorded with its outcome,
  and it either raises or has its effect on the browser and returns \<open>ret\<close> (read from the
  browser as it was before the call).
\<close>

definition perform :: "env \<Rightarrow> call \<Rightarrow> (browser \<Rightarrow> 'a) \<Rightarrow> 'a prog" where
  "perform e c ret w =
     (if fails e (history w) c
      then (Inl (Exception (message e c)), (deliver e c w)\<lparr>history := history w @ [(c, False)]\<rparr>)
      else (Inr (ret (browser w)),
            (deliver e c w)\<lparr>history := history w @ [(c, True)], browser := effect c (browser w)\<rparr>))"

definition launch :: "env \<Rightarrow> bool option \<Rightarrow> unit prog" where
  "launch e headless = perform e (Launch headless) (\<lambda>_. ())"

definition browser_new_page :: "env \<Rightarrow> nat prog" where
  "browser_new_page e = perform e BrowserNewPage n_pages"

definition new_context :: "env \<Rightarrow> nat prog" where
  "new_context e = perform e BrowserNewContext n_contexts"

definition add_init_script :: "env \<Rightarrow> nat \<Rightarrow> string \<Rightarrow> unit prog" where
  "add_init_script e c s = perform e (AddInitScript c s) (\<lambda>_. ())"

definition context_new_page :: "env \<Rightarrow> nat \<Rightarrow> nat prog" where
  "context_new_page e c = perform e (ContextNewPage c) n_pages"

definition goto :: "env \<Rightarrow> nat \<Rightarrow> string \<Rightarrow> unit prog" where
  "goto e p url = perform e (Goto p url) (\<lambda>_. ())"

text \<open>\<^verbatim>\<open>page.on("console", handler)\<close> registers the handler; it calls nothing in the browser.\<close>

definition on_console :: "nat \<Rightarrow> (string \<Rightarrow> string) \<Rightarrow> unit prog" where
  "on_console p f w = (Inr (), w\<lparr>handlers := (handlers w)(p := handlers w p @ [f])\<rparr>)"

definition fill :: "env \<Rightarrow> nat \<Rightarrow> locator \<Rightarrow> string \<Rightarrow> unit prog" where
  "fill e p l s = perform e (Fill p l s) (\<lambda>_. ())"

definition click :: "env \<Rightarrow> nat \<Rightarrow> locator \<Rightarrow> unit prog" where
  "click e p l = perform e (Click p l) (\<lambda>_. ())"

definition dispatch_event :: "env \<Rightarrow> nat \<Rightarrow> locator \<Rightarrow> string \<Rightarrow> unit prog" where
  "dispatch_event e p l ty = perform e (DispatchEvent p l ty) (\<lambda>_. ())"

definition expect_visible :: "env \<Rightarrow> nat \<Rightarrow> locator \<Rightarrow> nat option \<Rightarrow> unit prog" where
  "expect_visible e p l t = perform e (ExpectVisible p l t) (\<lambda>_. ())"

definition expect_not_visible :: "env \<Rightarrow> nat \<Rightarrow> locator \<Rightarrow> nat option \<Rightarrow> unit prog" where
  "expect_not_visible e p l t = perform e (ExpectNotVisible p l t) (\<lambda>_. ())"

definition page_screenshot :: "env \<Rightarrow> nat \<Rightarrow> string \<Rightarrow> unit prog" where
  "page_screenshot e p path = perform e (PageScreenshot p path) (\<lambda>_. ())"

definition locator_screenshot :: "env \<Rightarrow> nat \<Rightarrow> locator \<Rightarrow> string \<Rightarrow> unit prog" where
  "locator_screenshot e p l path = perform e (LocatorScreenshot p l path) (\<lambda>_. ())"

definition page_close :: "env \<Rightarrow> nat \<Rightarrow> unit prog" where
  "page_close e p = perform e (PageClose p) (\<lambda>_. ())"

definition browser_close :: "env \<Rightarrow> unit prog" where
  "browser_close e = perform e BrowserClose (\<lambda>_. ())"

text \<open>
  \<^verbatim>\<open>with sync_playwright() as p: body\<close> and \<^verbatim>\<open>async with async_playwright() as p: body\<close>:
  the driver is started, the body runs, and on every path out of the body the driver is
  stopped, and with it the browser process the driver launched, whether or not
  \<^verbatim>\<open>browser.close()\<close> was called; an exception of the body propagates.
\<close>

definition with_playwright :: "env \<Rightarrow> unit prog \<Rightarrow> unit prog" where
  "with_playwright e body w =
     (case perform e StartDriver (\<lambda>_. ()) w of
        (Inl x, w1) \<Rightarrow> (Inl x, w1)
      | (Inr u, w1) \<Rightarrow>
          (case body (w1\<lparr>driver_running := True\<rparr>) of
             (r, w2) \<Rightarrow> (r, w2\<lparr>driver_running := False,
                                 browser := (browser w2)\<lparr>is_open := False\<rparr>\<rparr>)))"

text \<open>
  \<^verbatim>\<open>os.path.abspath(name)\<close> for a relative \<open>name\<close> without \<^verbatim>\<open>.\<close> or \<^verbatim>\<open>..\<close> parts: the
  invocation directory joined with the name. When the invocation directory no longer
  exists, reading it raises \<^verbatim>\<open>FileNotFoundError\<close>. The operation is recorded in the
  history like a library call, but calls nothing in the browser.
\<close>

definition joined :: "string \<Rightarrow> string \<Rightarrow> string" where
  "joined d name = (if d \<noteq> [] \<and> last d = CHR ''/'' then d @ name else d @ ''/'' @ name)"

definition abspath :: "env \<Rightarrow> string \<Rightarrow> string prog" where
  "abspath e name w =
     (case cwd e of
        None \<Rightarrow> (Inl (Exception (message e (Abspath name))),
                 w\<lparr>history := history w @ [(Abspath name, False)]\<rparr>)
      | Some d \<Rightarrow> (Inr (joined d name), w\<lparr>history := history w @ [(Abspath name, True)]\<rparr>))"

text \<open>The f-string \<^verbatim>\<open>f'file://{file_path}'\<close>.\<close>

definition file_url :: "string \<Rightarrow> string" where
  "file_url file_path = ''file://'' @ file_path"

text \<open>The exit status of the interpreter: an uncaught exception ends the process with 1.\<close>

definition exit_status :: "exn + unit \<Rightarrow> nat" where
  "exit_status r = (case r of Inl _ \<Rightarrow> 1 | Inr _ \<Rightarrow> 0)"

section \<open>verify\_flash.py\<close>

text \<open>The paths of the two screenshots and the text of the initialization script.\<close>

definition unlocked_view :: string where
  "unlocked_view = ''jules-scratch/verification/unlocked_view.png''"

definition locked_view :: string where
  "locked_view = ''jules-scratch/verification/locked_view.png''"

definition seed_script :: string where
  "seed_script = ''localStorage.setItem('dreamJournalPinHash', '\"somehash\"');''"

text \<open>
  The two scenarios of \<^verbatim>\<open>main\<close>, each given the URL that \<^verbatim>\<open>main\<close> has computed before
  the first of them.
\<close>

definition unlocked_case :: "env \<Rightarrow> string \<Rightarrow> unit prog" where
  "unlocked_case e url =
     and_then (browser_new_page e) (\<lambda>page.
     and_then (goto e page url) (\<lambda>_.
     and_then (expect_visible e page (Css ''#journalTab'') (Some 5000)) (\<lambda>_.
     and_then (page_screenshot e page unlocked_view) (\<lambda>_.
     page_close e page))))"

definition locked_case :: "env \<Rightarrow> string \<Rightarrow> unit prog" where
  "locked_case e url =
     and_then (new_context e) (\<lambda>context.
     and_then (add_init_script e context seed_script) (\<lambda>_.
     and_then (context_new_page e context) (\<lambda>page.
     and_then (goto e page url) (\<lambda>_.
     and_then (expect_visible e page (Css ''#lockTab'') (Some 5000)) (\<lambda>_.
     and_then (expect_not_visible e page (Css ''#journalTab'') None) (\<lambda>_.
     page_screenshot e page locked_view))))))"

text \<open>
  The coroutine \<^verbatim>\<open>main\<close>, which \<^verbatim>\<open>asyncio.run(main())\<close> runs to its end when the file is
  executed as a script. Building a locator (\<^verbatim>\<open>page.locator(...)\<close>) calls nothing in the
  browser, so the locators appear only as arguments of the calls that use them.
\<close>

definition main :: "env \<Rightarrow> unit prog" where
  "main e =
     with_playwright e (
       and_then (launch e None) (\<lambda>_.
       and_then (abspath e ''index.html'') (\<lambda>file_path.
       and_then (unlocked_case e (file_url file_path)) (\<lambda>_.
       and_then (locked_case e (file_url file_path)) (\<lambda>_.
       browser_close e)))))"

section \<open>verify\_spacing.py\<close>

definition dream_title :: string where
  "dream_title = ''A Test Dream About Spacing''"

definition dream_content :: string where
  "dream_content = ''This is the content of the test dream.''"

definition verification_png :: string where
  "verification_png = ''jules-scratch/verification/verification.png''"

definition entry_element :: locator where
  "entry_element = CssHasText ''.entry'' dream_title"

text \<open>The console listener: \<^verbatim>\<open>lambda msg: print(f"Browser Console: {msg.text}")\<close>.\<close>

definition console_listener :: "string \<Rightarrow> string" where
  "console_listener text = ''Browser Console: '' @ text"

definition verify_spacing :: "env \<Rightarrow> nat \<Rightarrow> unit prog" where
  "verify_spacing e page =
     and_then (on_console page console_listener) (\<lambda>_.
     and_then (abspath e ''index.html'') (\<lambda>file_path.
     and_then (goto e page (file_url file_path)) (\<lambda>_.
     and_then (fill e page (Css ''#dreamTitle'') dream_title) (\<lambda>_.
     and_then (fill e page (Css ''#dreamContent'') dream_content) (\<lambda>_.
     and_then (click e page (Role ''button'' ''Save Dream'')) (\<lambda>_.
     and_then (expect_visible e page entry_element None) (\<lambda>_.
     and_then (dispatch_event e page (Inside entry_element (Role ''button'' ''Edit'')) ''click'') (\<lambda>_.
     and_then (expect_visible e page (Inside entry_element (Css ''textarea'')) (Some 10000)) (\<lambda>_.
     locator_screenshot e page entry_element verification_png)))))))))"

text \<open>
  The text of the success report, and of the failure report:
  \<^verbatim>\<open>f"Verification script failed: {e}"\<close>.
\<close>

definition success_line :: string where
  "success_line = ''Verification script ran successfully.''"

definition failed_line :: "string \<Rightarrow> string" where
  "failed_line m = ''Verification script failed: '' @ m"

text \<open>The module-level block of the file: the script itself.\<close>

definition spacing_script :: "env \<Rightarrow> unit prog" where
  "spacing_script e =
     with_playwright e (
       and_then (launch e (Some True)) (\<lambda>_.
       and_then (browser_new_page e) (\<lambda>page.
       try_except_finally
         (and_then (verify_spacing e page) (\<lambda>_. print_line success_line))
         (\<lambda>ex. case ex of Exception m \<Rightarrow> print_line (failed_line m))
         (browser_close e))))"

section \<open>Runs of the scripts\<close>

text \<open>
  The URL both scripts navigate to: \<^verbatim>\<open>file://\<close> and the absolute path of
  \<^verbatim>\<open>index.html\<close> in the invocation directory. No navigation is reached when that
  directory no longer exists.
\<close>

definition absolute :: "env \<Rightarrow> string \<Rightarrow> string" where
  "absolute e name = (case cwd e of None \<Rightarrow> name | Some d \<Rightarrow> joined d name)"

definition url :: "env \<Rightarrow> string" where
  "url e = file_url (absolute e ''index.html'')"

text \<open>
  The calls that returned, in order: \<open>ok cs\<close> is the history in which every call of
  \<open>cs\<close> returned.
\<close>

definition ok :: "call list \<Rightarrow> history" where
  "ok cs = map (\<lambda>c. (c, True)) cs"

text \<open>
  A list of calls issued one after the other, stopping at the first that raises. The
  blocks of the two scripts are shown below to be such lists.
\<close>

fun steps :: "env \<Rightarrow> call list \<Rightarrow> unit prog" where
  "steps e [] w = (Inr (), w)"
| "steps e (c # cs) w = and_then (perform e c (\<lambda>_. ())) (\<lambda>_. steps e cs) w"

text \<open>
  \<open>trace e h cs\<close> is what issuing \<open>cs\<close> after the history \<open>h\<close> adds to the history:
  the calls up to and including the first that raises.
\<close>

fun trace :: "env \<Rightarrow> history \<Rightarrow> call list \<Rightarrow> history" where
  "trace e h [] = []"
| "trace e h (c # cs) =
     (if fails e h c then [(c, False)] else (c, True) # trace e (h @ [(c, True)]) cs)"

text \<open>The browser after a history: the effects of the calls that returned.\<close>

fun replay :: "history \<Rightarrow> browser \<Rightarrow> browser" where
  "replay [] b = b"
| "replay ((c, r) # h) b = replay h (if r then effect c b else b)"

text \<open>The lines the console handlers \<open>hs\<close> print during the calls \<open>t\<close> issued after \<open>h\<close>.\<close>

fun printed :: "env \<Rightarrow> (nat \<Rightarrow> (string \<Rightarrow> string) list) \<Rightarrow> history \<Rightarrow> history \<Rightarrow> string list" where
  "printed e hs h [] = []"
| "printed e hs h ((c, r) # t) = console_lines e hs h c @ printed e hs (h @ [(c, r)]) t"

text \<open>The result of a fail-fast run with trace \<open>t\<close>: the exception of the call that raised.\<close>

definition failure :: "env \<Rightarrow> history \<Rightarrow> exn + unit" where
  "failure e t = (case find (\<lambda>x. \<not> snd x) t of None \<Rightarrow> Inr ()
                  | Some x \<Rightarrow> Inl (Exception (message e (fst x))))"

text \<open>
  The calls of the two scenarios of \<^verbatim>\<open>verify_flash.py\<close>, and the operations of the
  whole script: the path is resolved after the launch and before the first scenario.
\<close>

definition unlocked_calls :: "env \<Rightarrow> nat \<Rightarrow> call list" where
  "unlocked_calls e p =
     [BrowserNewPage, Goto p (url e), ExpectVisible p (Css ''#journalTab'') (Some 5000),
      PageScreenshot p unlocked_view, PageClose p]"

definition locked_calls :: "env \<Rightarrow> nat \<Rightarrow> nat \<Rightarrow> call list" where
  "locked_calls e c p =
     [BrowserNewContext, AddInitScript c seed_script, ContextNewPage c, Goto p (url e),
      ExpectVisible p (Css ''#lockTab'') (Some 5000),
      ExpectNotVisible p (Css ''#journalTab'') None,
      PageScreenshot p locked_view]"

definition flash_calls :: "env \<Rightarrow> call list" where
  "flash_calls e =
     StartDriver # Launch None # Abspath ''index.html'' #
     unlocked_calls e 0 @ locked_calls e 1 1 @ [BrowserClose]"

text \<open>
  The operations of \<^verbatim>\<open>verify_spacing(page)\<close>, which resolves the path before it
  navigates, the calls of the script before it, and the
  history of the whole script: the \<open>finally\<close> block issues \<^verbatim>\<open>browser.close()\<close> whatever
  the calls of \<^verbatim>\<open>verify_spacing(page)\<close> did.
\<close>

definition spacing_calls :: "env \<Rightarrow> nat \<Rightarrow> call list" where
  "spacing_calls e page =
      [Abspath ''index.html'',
       Goto page (url e),
       Fill page (Css ''#dreamTitle'') dream_title,
       Fill page (Css ''#dreamContent'') dream_content,
       Click page (Role ''button'' ''Save Dream''),
       ExpectVisible page entry_element None,
       DispatchEvent page (Inside entry_element (Role ''button'' ''Edit'')) ''click'',
       ExpectVisible page (Inside entry_element (Css ''textarea'')) (Some 10000),
       LocatorScreenshot page entry_element verification_png]"

definition spacing_pre :: "call list" where
  "spacing_pre = [StartDriver, Launch (Some True), BrowserNewPage]"

text \<open>
  \<open>trace_then e h cs d\<close>: the calls \<open>cs\<close> are issued after \<open>h\<close> up to the first that
  raises, and then the call \<open>d\<close> is issued whatever happened.
\<close>

fun trace_then :: "env \<Rightarrow> history \<Rightarrow> call list \<Rightarrow> call \<Rightarrow> history" where
  "trace_then e h [] d = [(d, \<not> fails e h d)]"
| "trace_then e h (c # cs) d =
     (if fails e h c then [(c, False), (d, \<not> fails e (h @ [(c, False)]) d)]
      else (c, True) # trace_then e (h @ [(c, True)]) cs d)"

definition spacing_trace :: "env \<Rightarrow> history" where
  "spacing_trace e =
     (if fails e [] StartDriver then [(StartDriver, False)]
      else if fails e (ok [StartDriver]) (Launch (Some True))
      then ok [StartDriver] @ [(Launch (Some True), False)]
      else if fails e (ok [StartDriver, Launch (Some True)]) BrowserNewPage
      then ok [StartDriver, Launch (Some True)] @ [(BrowserNewPage, False)]
      else ok spacing_pre @ trace_then e (ok spacing_pre) (spacing_calls e 0) BrowserClose)"

definition status_line :: "exn + unit \<Rightarrow> string" where
  "status_line r = (case r of Inl (Exception m) \<Rightarrow> failed_line m | Inr _ \<Rightarrow> success_line)"

text \<open>The world each script ends in, started from the initial world.\<close>

definition flash_final :: "env \<Rightarrow> world" where
  "flash_final e = snd (main e initial)"

definition spacing_final :: "env \<Rightarrow> world" where
  "spacing_final e = snd (spacing_script e initial)"

text \<open>
  Reading a history: a call returned, raised, was issued; one call returned before
  another was issued.
\<close>

definition returned :: "history \<Rightarrow> call \<Rightarrow> bool" where
  "returned h c = ((c, True) \<in> set h)"

definition raised :: "history \<Rightarrow> call \<Rightarrow> bool" where
  "raised h c = ((c, False) \<in> set h)"

definition issued :: "history \<Rightarrow> call \<Rightarrow> bool" where
  "issued h c = (c \<in> fst ` set h)"

fun returned_before :: "call \<Rightarrow> call \<Rightarrow> history \<Rightarrow> bool" where
  "returned_before c d [] = False"
| "returned_before c d (x # xs) =
     (if x = (c, True) then d \<in> fst ` set xs else returned_before c d xs)"

subsection \<open>The shapes a run can take\<close>

text \<open>
  \<open>outcomes cs\<close> lists the traces a fail-fast run of \<open>cs\<close> can leave: it stops at the
  first call that raises. \<open>outcomes_then cs d\<close> lists those of a run of \<open>cs\<close> followed,
  whatever happened, by the call \<open>d\<close>. A trace is \<open>consistent\<close> with an environment when
  every recorded outcome is the one the environment gives at that point.
\<close>

fun outcomes :: "call list \<Rightarrow> history list" where
  "outcomes [] = [[]]"
| "outcomes (c # cs) = [(c, False)] # map ((#) (c, True)) (outcomes cs)"

fun outcomes_then :: "call list \<Rightarrow> call \<Rightarrow> history list" where
  "outcomes_then [] d = [[(d, True)], [(d, False)]]"
| "outcomes_then (c # cs) d =
     [(c, False), (d, True)] # [(c, False), (d, False)] # map ((#) (c, True)) (outcomes_then cs d)"

definition spacing_outcomes :: "env \<Rightarrow> history list" where
  "spacing_outcomes e =
     butlast (outcomes spacing_pre) @
     map ((@) (ok spacing_pre)) (outcomes_then (spacing_calls e 0) BrowserClose)"

fun consistent :: "env \<Rightarrow> history \<Rightarrow> history \<Rightarrow> bool" where
  "consistent e h [] = True"
| "consistent e h ((c, r) # t) = ((r \<longleftrightarrow> \<not> fails e h c) \<and> consistent e (h @ [(c, r)]) t)"

text \<open>
  The result a script ends with is decided by its last call: the exception of that call
  when it raised. What \<^verbatim>\<open>verify_spacing.py\<close> prints is the output of the console
  listener during the calls of \<^verbatim>\<open>verify_spacing(page)\<close>, the status line, and the output
  of the listener during \<^verbatim>\<open>browser.close()\<close>.
\<close>

definition last_result :: "env \<Rightarrow> history \<Rightarrow> exn + unit" where
  "last_result e h = (if h \<noteq> [] \<and> \<not> snd (last h)
                      then Inl (Exception (message e (fst (last h)))) else Inr ())"

definition spacing_printed :: "env \<Rightarrow> history \<Rightarrow> string list" where
  "spacing_printed e h =
     (if \<not> returned h BrowserNewPage then []
      else (let hs = (\<lambda>_. [])(0 := [console_listener]); body = butlast (drop 3 h)
            in printed e hs (take 3 h) body @ [status_line (failure e body)] @
               printed e hs (butlast h) [last h]))"

text \<open>The console messages (page, text) arriving during the calls \<open>t\<close> issued after \<open>h\<close>.\<close>

fun emitted :: "env \<Rightarrow> history \<Rightarrow> history \<Rightarrow> (nat \<times> string) list" where
  "emitted e h [] = []"
| "emitted e h ((c, r) # t) = arriving e h c @ emitted e (h @ [(c, r)]) t"

text \<open>
  \<open>seen e h c\<close> is what the visibility assertion \<open>c\<close> ended with when it was issued in
  the run with history \<open>h\<close>; \<open>after c h\<close> are the calls issued after \<open>c\<close>.
\<close>

definition seen :: "env \<Rightarrow> history \<Rightarrow> call \<Rightarrow> match" where
  "seen e h c = observe e (takeWhile (\<lambda>x. fst x \<noteq> c) h) c"

definition after :: "call \<Rightarrow> history \<Rightarrow> history" where
  "after c h = tl (dropWhile (\<lambda>x. fst x \<noteq> c) h)"

text \<open>The JavaScript statement \<^verbatim>\<open>localStorage.setItem('k', 'v');\<close> as text.\<close>

definition js_quote :: "string \<Rightarrow> string" where
  "js_quote s = [CHR 0x27] @ s @ [CHR 0x27]"

definition set_item_js :: "string \<Rightarrow> string \<Rightarrow> string" where
  "set_item_js k v = ''localStorage.setItem('' @ js_quote k @ '', '' @ js_quote v @ '');''"

subsection \<open>Sample environments\<close>

text \<open>
  \<open>passing\<close>: every operation returns and every assertion ends as asked. \<open>blank_page\<close>:
  every operation returns and no element ever becomes visible.
\<close>

definition passing :: env where
  "passing = \<lparr>cwd = Some ''/repo'', raises = (\<lambda>h c. False),
     observe = (\<lambda>h c. case c of ExpectNotVisible p l t \<Rightarrow> Hidden | _ \<Rightarrow> Single),
     message = (\<lambda>c. ''error''), console = (\<lambda>h c. [])\<rparr>"

definition blank_page :: env where
  "blank_page = \<lparr>cwd = Some ''/repo'', raises = (\<lambda>h c. False), observe = (\<lambda>h c. Hidden),
     message = (\<lambda>c. ''not visible''), console = (\<lambda>h c. [])\<rparr>"

text \<open>
  \<open>both_tabs\<close>: every operation returns; the first page shows every element, the lock
  tab included, and the second page shows the lock tab only. \<open>chatty\<close>: as \<open>passing\<close>,
  and every navigation makes the page write \<^verbatim>\<open>ready\<close> to its console.
\<close>

definition both_tabs :: env where
  "both_tabs = \<lparr>cwd = Some ''/repo'', raises = (\<lambda>h c. False),
     observe = (\<lambda>h c. case c of
         ExpectVisible p l t \<Rightarrow> if p = 0 \<or> l = Css ''#lockTab'' then Single else Hidden
       | ExpectNotVisible p l t \<Rightarrow> if p = 0 \<or> l = Css ''#lockTab'' then Single else Hidden
       | _ \<Rightarrow> Hidden),
     message = (\<lambda>c. ''error''), console = (\<lambda>h c. [])\<rparr>"

definition chatty :: env where
  "chatty = \<lparr>cwd = Some ''/repo'', raises = (\<lambda>h c. False),
     observe = (\<lambda>h c. case c of ExpectNotVisible p l t \<Rightarrow> Hidden | _ \<Rightarrow> Single),
     message = (\<lambda>c. ''error''),
     console = (\<lambda>h c. case c of Goto p u \<Rightarrow> [(p, ''ready'')] | _ \<Rightarrow> [])\<rparr>"

text \<open>\<open>no_directory\<close>: as \<open>passing\<close>, started in a directory that no longer exists.\<close>

definition no_directory :: env where
  "no_directory = \<lparr>cwd = None, raises = (\<lambda>h c. False),
     observe = (\<lambda>h c. case c of ExpectNotVisible p l t \<Rightarrow> Hidden | _ \<Rightarrow> Single),
     message = (\<lambda>c. ''error''), console = (\<lambda>h c. [])\<rparr>"

section \<open>The scripts are fail-fast call lists\<close>

lemma and_then_perform:
  "and_then (perform e c ret) k w =
     (if fails e (history w) c
      then (Inl (Exception (message e c)), (deliver e c w)\<lparr>history := history w @ [(c, False)]\<rparr>)
      else k (ret (browser w))
             ((deliver e c w)\<lparr>history := history w @ [(c, True)], browser := effect c (browser w)\<rparr>))"
  by (simp add: and_then_def perform_def)

lemma deliver_fields [simp]:
  "history (deliver e c w) = history w"
  "handlers (deliver e c w) = handlers w"
  "browser (deliver e c w) = browser w"
  "driver_running (deliver e c w) = driver_running w"
  "stdout (deliver e c w) = stdout w @ console_lines e (handlers w) (history w) c"
  by (simp_all add: deliver_def)

lemma steps_history: "history (snd (steps e cs w)) = history w @ trace e (history w) cs"
  by (induction cs arbitrary: w) (simp_all add: and_then_perform)

lemma steps_browser: "browser (snd (steps e cs w)) = replay (trace e (history w) cs) (browser w)"
  by (induction cs arbitrary: w) (simp_all add: and_then_perform)

lemma steps_handlers: "handlers (snd (steps e cs w)) = handlers w"
  by (induction cs arbitrary: w) (simp_all add: and_then_perform)

lemma steps_stdout:
  "stdout (snd (steps e cs w)) = stdout w @ printed e (handlers w) (history w) (trace e (history w) cs)"
  by (induction cs arbitrary: w) (simp_all add: and_then_perform)

lemma steps_result: "fst (steps e cs w) = failure e (trace e (history w) cs)"
  by (induction cs arbitrary: w) (simp_all add: and_then_perform failure_def)

lemma steps_append: "steps e (cs @ ds) w = and_then (steps e cs) (\<lambda>_. steps e ds) w"
proof (induction cs arbitrary: w)
  case Nil
  show ?case by (simp add: and_then_def)
next
  case (Cons c cs)
  show ?case
    by (simp add: and_then_perform Cons.IH) (simp add: and_then_def)
qed


lemma perform_alone:
  "perform e c ret w =
     (if fails e (history w) c
      then (Inl (Exception (message e c)), (deliver e c w)\<lparr>history := history w @ [(c, False)]\<rparr>)
      else (Inr (ret (browser w)),
             (deliver e c w)\<lparr>history := history w @ [(c, True)], browser := effect c (browser w)\<rparr>))"
  by (simp add: perform_def)

lemma and_then_on_console:
  "and_then (on_console p f) k w = k () (w\<lparr>handlers := (handlers w)(p := handlers w p @ [f])\<rparr>)"
  by (simp add: and_then_def on_console_def)

lemma abspath_perform: "abspath e name = perform e (Abspath name) (\<lambda>_. absolute e name)"
  by (rule ext)
     (simp add: abspath_def perform_def fails_def deliver_def console_lines_def arriving_def
        absolute_def split: option.splits)

lemma unlocked_steps:
  "unlocked_case e u w = steps e
      [BrowserNewPage, Goto (n_pages (browser w)) u,
       ExpectVisible (n_pages (browser w)) (Css ''#journalTab'') (Some 5000),
       PageScreenshot (n_pages (browser w)) unlocked_view,
       PageClose (n_pages (browser w))] w"
  by (simp add: unlocked_case_def browser_new_page_def goto_def expect_visible_def
        page_screenshot_def page_close_def and_then_perform perform_alone)

lemma locked_steps:
  "locked_case e u w = steps e
      [BrowserNewContext, AddInitScript (n_contexts (browser w)) seed_script,
       ContextNewPage (n_contexts (browser w)), Goto (n_pages (browser w)) u,
       ExpectVisible (n_pages (browser w)) (Css ''#lockTab'') (Some 5000),
       ExpectNotVisible (n_pages (browser w)) (Css ''#journalTab'') None,
       PageScreenshot (n_pages (browser w)) locked_view] w"
  by (simp add: locked_case_def new_context_def add_init_script_def context_new_page_def goto_def
        expect_visible_def expect_not_visible_def page_screenshot_def and_then_perform perform_alone)


lemma perform_steps: "perform e c (\<lambda>_. ()) = steps e [c]"
  by (rule ext) (simp add: and_then_perform perform_alone)

lemma steps_seq: "and_then (steps e cs) (\<lambda>_. steps e ds) = steps e (cs @ ds)"
  by (rule ext) (simp add: steps_append)

lemma and_then_abspath:
  "and_then (abspath e name) k = and_then (steps e [Abspath name]) (\<lambda>_. k (absolute e name))"
  by (rule ext) (simp add: abspath_perform and_then_def perform_alone)

lemma spacing_steps:
  "verify_spacing e page w = steps e (spacing_calls e page)
      (w\<lparr>handlers := (handlers w)(page := handlers w page @ [console_listener])\<rparr>)"
  by (simp add: verify_spacing_def goto_def fill_def click_def expect_visible_def dispatch_event_def
        locator_screenshot_def perform_steps steps_seq and_then_on_console and_then_abspath
        url_def [symmetric] spacing_calls_def del: steps.simps)

lemma trace_ok: "failure e (trace e h cs) = Inr () \<Longrightarrow> trace e h cs = ok cs"
  by (induction cs arbitrary: h) (auto simp: failure_def ok_def split: if_splits)

lemma failure_ok [simp]: "failure e (ok cs) = Inr ()"
  by (induction cs) (simp_all add: failure_def ok_def)

lemma replay_append: "replay (s @ t) b = replay t (replay s b)"
  by (induction s arbitrary: b) auto

lemma and_then_steps:
  assumes "\<And>w'. history w' = history w @ ok cs \<Longrightarrow> browser w' = replay (ok cs) (browser w)
               \<Longrightarrow> k () w' = steps e ds w'"
  shows "and_then (steps e cs) k w = steps e (cs @ ds) w"
proof -
  obtain r w1 where run: "steps e cs w = (r, w1)"
    by (cases "steps e cs w")
  show ?thesis
  proof (cases r)
    case (Inl x)
    with run show ?thesis
      by (simp add: steps_append and_then_def)
  next
    case (Inr u)
    with run have "failure e (trace e (history w) cs) = Inr ()"
      using steps_result [of e cs w] by simp
    then have t: "trace e (history w) cs = ok cs"
      by (rule trace_ok)
    have "history w1 = history w @ ok cs" "browser w1 = replay (ok cs) (browser w)"
      using run steps_history [of e cs w] steps_browser [of e cs w] t by simp_all
    then have "k () w1 = steps e ds w1"
      by (rule assms)
    with run Inr show ?thesis
      by (simp add: steps_append and_then_def)
  qed
qed

lemma flash_body:
  assumes "n_pages (browser w) = 0" "n_contexts (browser w) = 0"
  shows "and_then (launch e None) (\<lambda>_. and_then (abspath e ''index.html'') (\<lambda>file_path.
           and_then (unlocked_case e (file_url file_path)) (\<lambda>_.
           and_then (locked_case e (file_url file_path)) (\<lambda>_. browser_close e)))) w
         = steps e (Launch None # Abspath ''index.html'' #
                    unlocked_calls e 0 @ locked_calls e 1 1 @ [BrowserClose]) w"
proof -
  have close: "browser_close e = steps e [BrowserClose]"
    by (rule ext) (simp add: browser_close_def and_then_perform perform_alone)
  have lock: "and_then (locked_case e (url e)) (\<lambda>_. browser_close e) w2
              = steps e (locked_calls e 1 1 @ [BrowserClose]) w2"
    if "n_pages (browser w2) = 1" "n_contexts (browser w2) = 1" for w2
  proof -
    have "and_then (locked_case e (url e)) (\<lambda>_. browser_close e) w2
          = and_then (steps e (locked_calls e 1 1)) (\<lambda>_. steps e [BrowserClose]) w2"
      using that by (simp add: and_then_def locked_steps locked_calls_def close del: steps.simps)
    then show ?thesis
      by (simp only: steps_append)
  qed
  have unlock: "and_then (unlocked_case e (url e))
                  (\<lambda>_. and_then (locked_case e (url e)) (\<lambda>_. browser_close e)) w1
              = steps e (unlocked_calls e 0 @ locked_calls e 1 1 @ [BrowserClose]) w1"
    if w1: "n_pages (browser w1) = 0" "n_contexts (browser w1) = 0" for w1
  proof -
    have "and_then (unlocked_case e (url e))
            (\<lambda>_. and_then (locked_case e (url e)) (\<lambda>_. browser_close e)) w1
          = and_then (steps e (unlocked_calls e 0))
              (\<lambda>_. and_then (locked_case e (url e)) (\<lambda>_. browser_close e)) w1"
      by (simp add: and_then_def unlocked_steps w1 unlocked_calls_def del: steps.simps)
    also have "\<dots> = steps e (unlocked_calls e 0 @ locked_calls e 1 1 @ [BrowserClose]) w1"
      by (rule and_then_steps, rule lock) (simp_all add: unlocked_calls_def ok_def w1)
    finally show ?thesis .
  qed
  have path: "and_then (steps e [Abspath ''index.html'']) (\<lambda>_. and_then (unlocked_case e (url e))
                  (\<lambda>_. and_then (locked_case e (url e)) (\<lambda>_. browser_close e))) w0
              = steps e ([Abspath ''index.html''] @
                         unlocked_calls e 0 @ locked_calls e 1 1 @ [BrowserClose]) w0"
    if w0: "n_pages (browser w0) = 0" "n_contexts (browser w0) = 0" for w0
    by (rule and_then_steps, rule unlock) (simp_all add: ok_def w0)
  have "and_then (steps e [Launch None]) (\<lambda>_. and_then (steps e [Abspath ''index.html''])
           (\<lambda>_. and_then (unlocked_case e (url e))
                  (\<lambda>_. and_then (locked_case e (url e)) (\<lambda>_. browser_close e)))) w
        = steps e ([Launch None] @ [Abspath ''index.html''] @
                   unlocked_calls e 0 @ locked_calls e 1 1 @ [BrowserClose]) w"
    by (rule and_then_steps, rule path) (simp_all add: ok_def assms)
  moreover have "launch e None = steps e [Launch None]"
    by (rule ext) (simp add: launch_def and_then_perform perform_alone)
  ultimately show ?thesis
    by (simp add: and_then_abspath url_def [symmetric] del: steps.simps)
qed


lemma console_lines_none [simp]: "console_lines e (\<lambda>_. []) h c = []"
proof -
  have "concat (map (\<lambda>x. []) xs) = []" for xs :: "(nat \<times> string) list"
    by (induction xs) simp_all
  then show ?thesis
    by (simp add: console_lines_def case_prod_beta)
qed

lemma printed_none [simp]: "printed e (\<lambda>_. []) h t = []"
  by (induction t arbitrary: h) auto

lemma main_unfold:
  "main e initial =
     (if fails e [] StartDriver
      then (Inl (Exception (message e StartDriver)), initial\<lparr>history := [(StartDriver, False)]\<rparr>)
      else (let r = steps e (Launch None # Abspath ''index.html'' #
                             unlocked_calls e 0 @ locked_calls e 1 1 @ [BrowserClose])
                      (initial\<lparr>history := [(StartDriver, True)], driver_running := True\<rparr>)
            in (fst r, (snd r)\<lparr>driver_running := False,
                              browser := (browser (snd r))\<lparr>is_open := False\<rparr>\<rparr>)))"
proof (cases "fails e [] StartDriver")
  case True
  then show ?thesis
    by (simp add: main_def with_playwright_def perform_alone deliver_def initial_def)
next
  case False
  have "n_pages (browser (initial\<lparr>history := [(StartDriver, True)], driver_running := True\<rparr>)) = 0"
       "n_contexts (browser (initial\<lparr>history := [(StartDriver, True)], driver_running := True\<rparr>)) = 0"
    by (simp_all add: initial_def)
  note body = flash_body [OF this]
  have start: "perform e StartDriver (\<lambda>_. ()) initial
        = (Inr (), initial\<lparr>history := [(StartDriver, True)]\<rparr>)"
    using False by (simp add: perform_alone deliver_def initial_def)
  show ?thesis
    unfolding main_def with_playwright_def start
    using False by (simp add: body Let_def case_prod_beta del: steps.simps)
qed

lemma main_history: "history (snd (main e initial)) = trace e [] (flash_calls e)"
  unfolding main_unfold
  by (simp add: Let_def steps_history flash_calls_def initial_def del: steps.simps)

lemma main_result: "fst (main e initial) = failure e (trace e [] (flash_calls e))"
  unfolding main_unfold
  by (simp add: Let_def steps_result flash_calls_def initial_def failure_def del: steps.simps)

lemma main_browser:
  "browser (snd (main e initial))
     = (replay (trace e [] (flash_calls e)) (browser initial))\<lparr>is_open := False\<rparr>"
  unfolding main_unfold
  by (simp add: Let_def steps_browser flash_calls_def initial_def del: steps.simps)

lemma main_stdout: "stdout (snd (main e initial)) = []"
  unfolding main_unfold
  by (simp add: Let_def steps_stdout initial_def del: steps.simps)

lemma main_running: "driver_running (snd (main e initial)) = False"
  unfolding main_unfold
  by (simp add: Let_def initial_def del: steps.simps)

lemma spacing_unfold:
  "spacing_script e initial =
     (let t1 = trace e [] spacing_pre in
      if t1 \<noteq> ok spacing_pre
      then (failure e t1, initial\<lparr>history := t1,
                                  browser := (replay t1 (browser initial))\<lparr>is_open := False\<rparr>\<rparr>)
      else (let r = steps e (spacing_calls e 0)
                      (initial\<lparr>history := ok spacing_pre,
                               handlers := (\<lambda>_. [])(0 := [console_listener]),
                               browser := replay (ok spacing_pre) (browser initial),
                               driver_running := True\<rparr>);
                r' = steps e [BrowserClose] ((snd r)\<lparr>stdout := stdout (snd r) @ [status_line (fst r)]\<rparr>)
            in (fst r', (snd r')\<lparr>driver_running := False,
                                browser := (browser (snd r'))\<lparr>is_open := False\<rparr>\<rparr>)))"
proof -
  have close: "browser_close e = steps e [BrowserClose]"
    by (rule ext) (simp add: browser_close_def and_then_perform perform_alone)
  have tef: "try_except_finally
         (and_then (verify_spacing e page) (\<lambda>_. print_line success_line))
         (\<lambda>ex. case ex of Exception m \<Rightarrow> print_line (failed_line m))
         (browser_close e) w
       = (let r = steps e (spacing_calls e page)
                    (w\<lparr>handlers := (handlers w)(page := handlers w page @ [console_listener])\<rparr>);
              r' = steps e [BrowserClose] ((snd r)\<lparr>stdout := stdout (snd r) @ [status_line (fst r)]\<rparr>)
          in r')" for w page
    by (simp add: try_except_finally_def and_then_def spacing_steps close print_line_def status_line_def
          Let_def split: prod.splits sum.splits exn.splits del: steps.simps)
  show ?thesis
    unfolding spacing_script_def with_playwright_def
    by (simp add: tef and_then_perform perform_alone launch_def browser_new_page_def spacing_pre_def ok_def
          failure_def deliver_def initial_def Let_def case_prod_beta del: steps.simps)
qed


lemma trace_single: "trace e h [d] = [(d, \<not> fails e h d)]"
  by simp

lemma trace_then_eq:
  "trace e h cs @ [(d, \<not> fails e (h @ trace e h cs) d)] = trace_then e h cs d"
proof (induction cs arbitrary: h)
  case Nil
  show ?case by simp
next
  case (Cons c cs)
  show ?case
    using Cons.IH [of "h @ [(c, True)]"] by simp
qed

lemma spacing_pre_cases:
  "trace e [] spacing_pre \<noteq> ok spacing_pre \<longleftrightarrow>
     fails e [] StartDriver \<or> fails e (ok [StartDriver]) (Launch (Some True)) \<or>
     fails e (ok [StartDriver, Launch (Some True)]) BrowserNewPage"
  by (simp add: spacing_pre_def ok_def)

lemma spacing_history: "history (snd (spacing_script e initial)) = spacing_trace e"
  unfolding spacing_unfold spacing_trace_def
  by (simp add: Let_def steps_history initial_def trace_then_eq [symmetric] spacing_pre_cases
        trace_single del: steps.simps trace.simps)
     (simp add: spacing_pre_def ok_def)

lemma spacing_browser:
  "browser (snd (spacing_script e initial))
     = (replay (spacing_trace e) (browser initial))\<lparr>is_open := False\<rparr>"
  unfolding spacing_unfold spacing_trace_def
  by (simp add: Let_def steps_history steps_browser replay_append initial_def
        trace_then_eq [symmetric] spacing_pre_cases trace_single del: steps.simps trace.simps)
     (simp add: spacing_pre_def ok_def)

lemma spacing_result:
  "fst (spacing_script e initial) =
     (if trace e [] spacing_pre \<noteq> ok spacing_pre then failure e (trace e [] spacing_pre)
      else failure e (trace e (ok spacing_pre @ trace e (ok spacing_pre) (spacing_calls e 0))
                        [BrowserClose]))"
  unfolding spacing_unfold
  by (simp add: Let_def steps_history steps_result initial_def del: steps.simps)

lemma spacing_stdout:
  "stdout (snd (spacing_script e initial)) =
     (if trace e [] spacing_pre \<noteq> ok spacing_pre then []
      else (let hs = (\<lambda>_. [])(0 := [console_listener]);
                t2 = trace e (ok spacing_pre) (spacing_calls e 0)
            in printed e hs (ok spacing_pre) t2 @ [status_line (failure e t2)] @
               printed e hs (ok spacing_pre @ t2) (trace e (ok spacing_pre @ t2) [BrowserClose])))"
  unfolding spacing_unfold
  by (simp add: Let_def steps_history steps_result steps_stdout steps_handlers initial_def
        del: steps.simps)

lemma spacing_running: "driver_running (snd (spacing_script e initial)) = False"
  unfolding spacing_unfold
  by (simp add: Let_def initial_def del: steps.simps)

section \<open>What a run of each script looks like\<close>

lemma browser_initial:
  "browser initial = \<lparr>n_contexts = 0, init_scripts = (\<lambda>_. []), n_pages = 0, page_context = (\<lambda>_. 0),
       closed_pages = [], loads = [], files = [], is_open = False\<rparr>"
  by (simp add: initial_def)

lemma trace_outcomes: "trace e h cs \<in> set (outcomes cs)"
  by (induction cs arbitrary: h) auto

lemma trace_consistent: "consistent e h (trace e h cs)"
  by (induction cs arbitrary: h) auto

lemma trace_then_outcomes: "trace_then e h cs d \<in> set (outcomes_then cs d)"
  by (induction cs arbitrary: h) auto

lemma trace_then_consistent: "consistent e h (trace_then e h cs d)"
  by (induction cs arbitrary: h) auto

lemma consistent_append:
  "consistent e h (s @ t) \<longleftrightarrow> consistent e h s \<and> consistent e (h @ s) t"
  by (induction s arbitrary: h) auto

lemma failure_trace: "failure e (trace e h cs) = last_result e (trace e h cs)"
  by (induction cs arbitrary: h) (auto simp: failure_def last_result_def)

lemma flash_history: "history (flash_final e) = trace e [] (flash_calls e)"
  by (simp only: flash_final_def main_history)

lemma flash_shape: "history (flash_final e) \<in> set (outcomes (flash_calls e))"
  by (simp only: flash_history trace_outcomes)

lemma flash_consistent: "consistent e [] (history (flash_final e))"
  by (simp only: flash_history trace_consistent)

lemma flash_replay:
  "browser (flash_final e) = (replay (history (flash_final e)) (browser initial))\<lparr>is_open := False\<rparr>"
  by (simp only: flash_history) (simp only: flash_final_def main_browser)

lemma flash_result: "fst (main e initial) = last_result e (history (flash_final e))"
  by (simp only: flash_history main_result failure_trace)

lemma flash_stdout: "stdout (flash_final e) = []"
  by (simp only: flash_final_def main_stdout)

lemma flash_running: "\<not> driver_running (flash_final e)"
  by (simp only: flash_final_def main_running) simp

lemma spacing_final_history: "history (spacing_final e) = spacing_trace e"
  by (simp only: spacing_final_def spacing_history)

lemma spacing_shape: "history (spacing_final e) \<in> set (spacing_outcomes e)"
  unfolding spacing_final_history spacing_trace_def spacing_outcomes_def
  using trace_then_outcomes [of e "ok spacing_pre" "spacing_calls e 0" BrowserClose]
  by (simp add: spacing_pre_def ok_def)

lemma spacing_consistent: "consistent e [] (history (spacing_final e))"
  unfolding spacing_final_history spacing_trace_def
  using trace_then_consistent [of e "ok spacing_pre" "spacing_calls e 0" BrowserClose]
  by (simp add: spacing_pre_def ok_def consistent_append)

lemma spacing_replay:
  "browser (spacing_final e)
     = (replay (history (spacing_final e)) (browser initial))\<lparr>is_open := False\<rparr>"
  by (simp only: spacing_final_history) (simp only: spacing_final_def spacing_browser)

lemma spacing_running_final: "\<not> driver_running (spacing_final e)"
  by (simp only: spacing_final_def spacing_running) simp

text \<open>
  When the three calls before \<^verbatim>\<open>verify_spacing(page)\<close> returned, the history is those
  calls, the trace of \<^verbatim>\<open>verify_spacing(page)\<close>, and \<^verbatim>\<open>browser.close()\<close>.
\<close>

lemma spacing_trace_split:
  assumes "trace e [] spacing_pre = ok spacing_pre"
  shows "spacing_trace e =
           ok spacing_pre @ trace e (ok spacing_pre) (spacing_calls e 0) @
           [(BrowserClose, \<not> fails e (ok spacing_pre @ trace e (ok spacing_pre) (spacing_calls e 0))
                               BrowserClose)]"
proof -
  from assms have "\<not> (fails e [] StartDriver \<or> fails e (ok [StartDriver]) (Launch (Some True)) \<or>
     fails e (ok [StartDriver, Launch (Some True)]) BrowserNewPage)"
    using spacing_pre_cases [of e] by simp
  then show ?thesis
    by (simp add: spacing_trace_def trace_then_eq)
qed

lemma spacing_trace_short:
  assumes "trace e [] spacing_pre \<noteq> ok spacing_pre"
  shows "spacing_trace e = trace e [] spacing_pre"
  using assms by (auto simp: spacing_trace_def spacing_pre_def ok_def split: if_splits)

lemma pre_not_ok:
  assumes "trace e [] spacing_pre \<noteq> ok spacing_pre"
  shows "\<not> returned (trace e [] spacing_pre) BrowserNewPage"
  using assms by (auto simp: spacing_pre_def ok_def returned_def split: if_splits)

lemma spacing_result_last:
  "fst (spacing_script e initial) = last_result e (history (spacing_final e))"
proof (cases "trace e [] spacing_pre = ok spacing_pre")
  case True
  then show ?thesis
    unfolding spacing_final_history spacing_trace_split [OF True] spacing_result
    by (simp add: last_result_def failure_def)
next
  case False
  then show ?thesis
    unfolding spacing_final_history spacing_trace_short [OF False] spacing_result
    by (simp add: failure_trace)
qed

lemma spacing_stdout_history:
  "stdout (spacing_final e) = spacing_printed e (history (spacing_final e))"
proof (cases "trace e [] spacing_pre = ok spacing_pre")
  case True
  have three: "length (ok spacing_pre) = 3" "BrowserNewPage \<in> set spacing_pre"
    by (simp_all add: spacing_pre_def ok_def)
  show ?thesis
    unfolding spacing_final_history spacing_trace_split [OF True]
    unfolding spacing_final_def spacing_stdout
    using True three
    by (simp add: spacing_printed_def Let_def returned_def ok_def butlast_append)
next
  case False
  then show ?thesis
    unfolding spacing_final_history spacing_trace_short [OF False]
    unfolding spacing_final_def spacing_stdout
    by (simp add: spacing_printed_def pre_not_ok)
qed

lemma listener_lines:
  "set (console_lines e ((\<lambda>_. [])(0 := [f])) h c) = {f text |text. (0, text) \<in> set (arriving e h c)}"
proof -
  have "set (concat (map (\<lambda>(p, text). map (\<lambda>g. g text) (((\<lambda>_. [])(0 := [f])) p)) xs))
        = {f text |text. (0, text) \<in> set xs}" for xs :: "(nat \<times> string) list"
    by (induction xs) auto
  then show ?thesis
    by (simp add: console_lines_def)
qed

lemma views_distinct [simp]: "unlocked_view \<noteq> locked_view" "locked_view \<noteq> unlocked_view"
  by (simp_all add: unlocked_view_def locked_view_def)

lemmas flash_paths = flash_calls_def unlocked_calls_def locked_calls_def ok_def
lemmas spacing_paths = spacing_outcomes_def spacing_pre_def spacing_calls_def ok_def
lemmas reading = returned_def raised_def issued_def seen_def after_def fails_def browser_initial

subsection \<open>The runs in the sample environments\<close>

lemma passing_flash: "history (flash_final passing) = ok (flash_calls passing)"
  by (simp add: flash_history flash_paths fails_def passing_def)

lemma passing_spacing:
  "history (spacing_final passing) = ok (spacing_pre @ spacing_calls passing 0 @ [BrowserClose])"
  by (simp add: spacing_final_history spacing_trace_def spacing_pre_def spacing_calls_def ok_def
        fails_def passing_def)

lemma blank_flash:
  "history (flash_final blank_page) =
     ok [StartDriver, Launch None, Abspath ''index.html'', BrowserNewPage, Goto 0 (url blank_page)] @
     [(ExpectVisible 0 (Css ''#journalTab'') (Some 5000), False)]"
  by (simp add: flash_history flash_paths fails_def blank_page_def)

lemma blank_spacing:
  "history (spacing_final blank_page) =
     ok (spacing_pre @ take 5 (spacing_calls blank_page 0)) @
     [(ExpectVisible 0 entry_element None, False), (BrowserClose, True)]"
  by (simp add: spacing_final_history spacing_trace_def spacing_pre_def spacing_calls_def ok_def
        fails_def blank_page_def)

lemma both_tabs_flash: "history (flash_final both_tabs) = ok (flash_calls both_tabs)"
  by (simp add: flash_history flash_paths fails_def both_tabs_def)

lemma chatty_flash: "history (flash_final chatty) = ok (flash_calls chatty)"
  by (simp add: flash_history flash_paths fails_def chatty_def)

lemma chatty_spacing:
  "history (spacing_final chatty) = ok (spacing_pre @ spacing_calls chatty 0 @ [BrowserClose])"
  by (simp add: spacing_final_history spacing_trace_def spacing_pre_def spacing_calls_def ok_def
        fails_def chatty_def)

lemma no_directory_flash:
  "history (flash_final no_directory) =
     ok [StartDriver, Launch None] @ [(Abspath ''index.html'', False)]"
  by (simp add: flash_history flash_paths fails_def no_directory_def)

lemma no_directory_spacing:
  "history (spacing_final no_directory) =
     ok spacing_pre @ [(Abspath ''index.html'', False), (BrowserClose, True)]"
  by (simp add: spacing_final_history spacing_trace_def spacing_pre_def spacing_calls_def ok_def
        fails_def no_directory_def)

subsection \<open>A block that returns\<close>

lemma steps_success:
  assumes "fst (steps e cs w) = Inr ()"
  shows "history (snd (steps e cs w)) = history w @ ok cs"
    and "consistent e (history w) (ok cs)"
proof -
  from assms have "failure e (trace e (history w) cs) = Inr ()"
    by (simp only: steps_result)
  then have t: "trace e (history w) cs = ok cs"
    by (rule trace_ok)
  show "history (snd (steps e cs w)) = history w @ ok cs"
    by (simp only: steps_history t)
  show "consistent e (history w) (ok cs)"
    using trace_consistent [of e "history w" cs] by (simp only: t)
qed

lemma locked_case_success:
  assumes "fst (locked_case e u w) = Inr ()"
  shows "(let c = n_contexts (browser w); p = n_pages (browser w);
              pre = [BrowserNewContext, AddInitScript c seed_script, ContextNewPage c, Goto p u];
              lock = ExpectVisible p (Css ''#lockTab'') (Some 5000);
              no_journal = ExpectNotVisible p (Css ''#journalTab'') None
          in history (snd (locked_case e u w))
               = history w @ ok (pre @ [lock, no_journal, PageScreenshot p locked_view]) \<and>
             observe e (history w @ ok pre) lock = Single \<and>
             observe e (history w @ ok (pre @ [lock])) no_journal = Hidden)"
proof -
  let ?cs = "[BrowserNewContext, AddInitScript (n_contexts (browser w)) seed_script,
       ContextNewPage (n_contexts (browser w)), Goto (n_pages (browser w)) u,
       ExpectVisible (n_pages (browser w)) (Css ''#lockTab'') (Some 5000),
       ExpectNotVisible (n_pages (browser w)) (Css ''#journalTab'') None,
       PageScreenshot (n_pages (browser w)) locked_view]"
  from assms have "fst (steps e ?cs w) = Inr ()"
    by (simp only: locked_steps)
  from steps_success [OF this] show ?thesis
    by (simp add: locked_steps Let_def ok_def fails_def del: steps.simps)
qed

lemma verify_spacing_success:
  assumes "fst (verify_spacing e page w) = Inr ()"
  shows "history (snd (verify_spacing e page w)) = history w @ ok (spacing_calls e page)"
    and "consistent e (history w) (ok (spacing_calls e page))"
proof -
  let ?w = "w\<lparr>handlers := (handlers w)(page := handlers w page @ [console_listener])\<rparr>"
  from assms have "fst (steps e (spacing_calls e page) ?w) = Inr ()"
    by (simp only: spacing_steps)
  from steps_success [OF this]
  show "history (snd (verify_spacing e page w)) = history w @ ok (spacing_calls e page)"
    and "consistent e (history w) (ok (spacing_calls e page))"
    by (simp_all add: spacing_steps del: steps.simps)
qed

lemma report_lines_distinct [simp]:
  "success_line \<noteq> console_listener m" "success_line \<noteq> failed_line m"
  "console_listener m \<noteq> success_line" "failed_line m \<noteq> success_line"
  by (simp_all add: success_line_def console_listener_def failed_line_def)

lemma history_initial: "history initial = []"
  by (simp add: initial_def)

lemma passing_verify:
  "fst (verify_spacing passing 0 initial) = Inr ()"
  "history (snd (verify_spacing passing 0 initial)) = ok (spacing_calls passing 0)"
proof -
  have t: "trace passing [] (spacing_calls passing 0) = ok (spacing_calls passing 0)"
    by (simp add: spacing_calls_def ok_def fails_def passing_def)
  show "fst (verify_spacing passing 0 initial) = Inr ()"
    by (simp add: spacing_steps steps_result history_initial t del: steps.simps)
  show "history (snd (verify_spacing passing 0 initial)) = ok (spacing_calls passing 0)"
    by (simp add: spacing_steps steps_history history_initial t del: steps.simps)
qed

lemma passing_report: "success_line \<in> set (stdout (spacing_final passing))"
  by (simp add: spacing_stdout_history passing_spacing spacing_printed_def Let_def returned_def
        spacing_pre_def spacing_calls_def ok_def status_line_def failure_def)

section \<open>The claims\<close>

text \<open>
  C1. In the locked-state scenario of \<^verbatim>\<open>verify_flash.py\<close> the script text registered is
  the statement setting the key \<^verbatim>\<open>dreamJournalPinHash\<close> to the quoted literal
  \<^verbatim>\<open>"somehash"\<close>. Once the page of the first scenario is closed, the script creates a
  context, registers the script on it, creates a page in it, navigates that page, asserts
  that \<^verbatim>\<open>#lockTab\<close> is visible within 5000 ms, asserts that \<^verbatim>\<open>#journalTab\<close> is not
  visible, and takes the screenshot: each step is issued as soon as the one before it has
  returned, and in this order. The load of that page runs the registered script before the
  page's own scripts. Each assertion returns exactly when it saw what it asks for. The
  scenario returns, and \<^verbatim>\<open>main\<close> goes on to \<^verbatim>\<open>browser.close()\<close>, only if \<^verbatim>\<open>#lockTab\<close>
  was seen as the single visible match and \<^verbatim>\<open>#journalTab\<close> as hidden; the same holds of
  the scenario started in any world \<open>w\<close> with any URL \<open>u\<close>.
\<close>

theorem locked_scenario_seeds_then_asserts:
  fixes e :: env and u :: string and w :: world
  defines "h \<equiv> history (flash_final e)" and "b \<equiv> browser (flash_final e)"
    and "lock \<equiv> ExpectVisible 1 (Css ''#lockTab'') (Some 5000)"
    and "no_journal \<equiv> ExpectNotVisible 1 (Css ''#journalTab'') None"
    and "shot \<equiv> PageScreenshot 1 locked_view"
  shows
    "seed_script = set_item_js ''dreamJournalPinHash'' ''\"somehash\"'' \<and>
     (returned h (PageClose 0) \<longrightarrow> issued h BrowserNewContext) \<and>
     (returned h BrowserNewContext \<longrightarrow> issued h (AddInitScript 1 seed_script)) \<and>
     (returned h (AddInitScript 1 seed_script) \<longrightarrow> issued h (ContextNewPage 1)) \<and>
     (returned h (ContextNewPage 1) \<longrightarrow>
        issued h (Goto 1 (url e)) \<and> page_context b 1 = 1 \<and> page_context b 0 = 0) \<and>
     (returned h (Goto 1 (url e)) \<longrightarrow>
        loads b = [(0, []), (1, [seed_script])] \<and> issued h lock) \<and>
     (returned h lock \<longrightarrow> issued h no_journal) \<and>
     (returned h no_journal \<longrightarrow> issued h shot) \<and>
     (issued h (Goto 1 (url e)) \<longrightarrow>
        returned_before (PageClose 0) BrowserNewContext h \<and>
        returned_before BrowserNewContext (AddInitScript 1 seed_script) h \<and>
        returned_before (AddInitScript 1 seed_script) (ContextNewPage 1) h \<and>
        returned_before (ContextNewPage 1) (Goto 1 (url e)) h) \<and>
     (issued h shot \<longrightarrow>
        returned_before (Goto 1 (url e)) lock h \<and> returned_before lock no_journal h \<and>
        returned_before no_journal shot h) \<and>
     (issued h lock \<longrightarrow> (returned h lock \<longleftrightarrow> seen e h lock = Single)) \<and>
     (issued h no_journal \<longrightarrow> (returned h no_journal \<longleftrightarrow> seen e h no_journal = Hidden)) \<and>
     (returned h shot \<longrightarrow> seen e h lock = Single \<and> seen e h no_journal = Hidden) \<and>
     (issued h BrowserClose \<longleftrightarrow> returned h shot) \<and>
     (fst (main e initial) = Inr () \<longrightarrow>
        returned h shot \<and> seen e h lock = Single \<and> seen e h no_journal = Hidden) \<and>
     (fst (locked_case e u w) = Inr () \<longrightarrow>
        (let c = n_contexts (browser w); p = n_pages (browser w);
             pre = [BrowserNewContext, AddInitScript c seed_script, ContextNewPage c, Goto p u];
             lock = ExpectVisible p (Css ''#lockTab'') (Some 5000);
             no_journal = ExpectNotVisible p (Css ''#journalTab'') None
         in history (snd (locked_case e u w))
              = history w @ ok (pre @ [lock, no_journal, PageScreenshot p locked_view]) \<and>
            observe e (history w @ ok pre) lock = Single \<and>
            observe e (history w @ ok (pre @ [lock])) no_journal = Hidden))"
proof -
  have shape: "h \<in> set (outcomes (flash_calls e))" and agrees: "consistent e [] h"
    and b: "b = (replay h (browser initial))\<lparr>is_open := False\<rparr>"
    and r: "fst (main e initial) = last_result e h"
    unfolding h_def b_def by (rule flash_shape flash_consistent flash_replay flash_result)+
  show ?thesis
    unfolding b r lock_def no_journal_def shot_def
    apply (intro conjI)
    subgoal by (simp add: seed_script_def set_item_js_def js_quote_def)
    subgoal using shape by (simp add: flash_paths, elim disjE, simp_all add: reading)
    subgoal using shape by (simp add: flash_paths, elim disjE, simp_all add: reading)
    subgoal using shape by (simp add: flash_paths, elim disjE, simp_all add: reading)
    subgoal using shape by (simp add: flash_paths, elim disjE, simp_all add: reading)
    subgoal using shape by (simp add: flash_paths, elim disjE, simp_all add: reading)
    subgoal using shape by (simp add: flash_paths, elim disjE, simp_all add: reading)
    subgoal using shape by (simp add: flash_paths, elim disjE, simp_all add: reading)
    subgoal using shape by (simp add: flash_paths, elim disjE, simp_all add: reading)
    subgoal using shape by (simp add: flash_paths, elim disjE, simp_all add: reading)
    subgoal using shape agrees by (simp add: flash_paths, elim disjE, simp_all add: reading)
    subgoal using shape agrees by (simp add: flash_paths, elim disjE, simp_all add: reading)
    subgoal using shape agrees by (simp add: flash_paths, elim disjE, simp_all add: reading)
    subgoal using shape by (simp add: flash_paths, elim disjE, simp_all add: reading)
    subgoal using shape agrees
      by (simp add: flash_paths, elim disjE, simp_all add: reading last_result_def)
    subgoal by (rule impI, rule locked_case_success)
    done
qed

theorem locked_scenario_seeds_then_asserts_witness:
  "fst (main passing initial) = Inr () \<and>
   fst (locked_case passing (url passing) initial) = Inr () \<and>
   returned (history (flash_final passing)) (PageScreenshot 1 locked_view) \<and>
   returned_before (AddInitScript 1 seed_script) (ContextNewPage 1) (history (flash_final passing)) \<and>
   loads (browser (flash_final passing)) = [(0, []), (1, [seed_script])] \<and>
   seen passing (history (flash_final passing)) (ExpectVisible 1 (Css ''#lockTab'') (Some 5000)) = Single \<and>
   seen passing (history (flash_final passing)) (ExpectNotVisible 1 (Css ''#journalTab'') None) = Hidden \<and>
   history (snd (locked_case passing (url passing) initial))
     = ok [BrowserNewContext, AddInitScript 0 seed_script, ContextNewPage 0, Goto 0 (url passing),
           ExpectVisible 0 (Css ''#lockTab'') (Some 5000),
           ExpectNotVisible 0 (Css ''#journalTab'') None, PageScreenshot 0 locked_view]"
  using locked_scenario_seeds_then_asserts [where e = passing and u = "url passing" and w = initial]
  by (simp add: flash_result last_result_def passing_flash flash_paths returned_def issued_def
        locked_steps steps_result steps_history browser_initial failure_def fails_def
        del: steps.simps)
     (simp add: initial_def passing_def)

text \<open>
  C2. In \<^verbatim>\<open>verify_spacing.py\<close>, once the page exists, the script resolves the path,
  navigates, fills the title field with the literal title and the content field with the
  literal content, clicks the button with role \<^verbatim>\<open>button\<close> and name \<^verbatim>\<open>Save Dream\<close>, and
  then asserts that the locator for class \<^verbatim>\<open>entry\<close> with the title as text is visible:
  each step is issued as soon as the one before it has returned, and in this order. The
  assertion returns exactly when exactly one element matches and is visible, and no later
  step (the event dispatch, the text-area assertion, the screenshot, the success report)
  is reached unless it returned. \<^verbatim>\<open>verify_spacing(page)\<close>, started in any world \<open>w\<close>,
  returns only after exactly these calls, with the entry seen as the single visible match.
\<close>

theorem save_then_entry_asserted:
  fixes e :: env and page :: nat and w :: world
  defines "h \<equiv> history (spacing_final e)"
    and "title \<equiv> Fill 0 (Css ''#dreamTitle'') dream_title"
    and "content \<equiv> Fill 0 (Css ''#dreamContent'') dream_content"
    and "save \<equiv> Click 0 (Role ''button'' ''Save Dream'')"
    and "entry \<equiv> ExpectVisible 0 entry_element None"
  shows
    "dream_title = ''A Test Dream About Spacing'' \<and>
     dream_content = ''This is the content of the test dream.'' \<and>
     entry_element = CssHasText ''.entry'' ''A Test Dream About Spacing'' \<and>
     (returned h BrowserNewPage \<longrightarrow> issued h (Abspath ''index.html'')) \<and>
     (returned h (Abspath ''index.html'') \<longrightarrow> issued h (Goto 0 (url e))) \<and>
     (returned h (Goto 0 (url e)) \<longrightarrow> issued h title) \<and>
     (returned h title \<longrightarrow> issued h content) \<and>
     (returned h content \<longrightarrow> issued h save) \<and>
     (returned h save \<longrightarrow> issued h entry) \<and>
     (issued h entry \<longrightarrow>
        returned_before title content h \<and> returned_before content save h \<and>
        returned_before save entry h) \<and>
     (issued h entry \<longrightarrow> (returned h entry \<longleftrightarrow> seen e h entry = Single)) \<and>
     (\<forall>c \<in> {DispatchEvent 0 (Inside entry_element (Role ''button'' ''Edit'')) ''click'',
             ExpectVisible 0 (Inside entry_element (Css ''textarea'')) (Some 10000),
             LocatorScreenshot 0 entry_element verification_png}.
        issued h c \<longrightarrow> returned_before entry c h \<and> seen e h entry = Single) \<and>
     (success_line \<in> set (stdout (spacing_final e)) \<longrightarrow>
        returned_before save entry h \<and> returned h entry \<and> seen e h entry = Single) \<and>
     (fst (verify_spacing e page w) = Inr () \<longrightarrow>
        history (snd (verify_spacing e page w)) = history w @ ok (spacing_calls e page) \<and>
        observe e (history w @ ok (takeWhile (\<lambda>c. c \<noteq> ExpectVisible page entry_element None)
                                     (spacing_calls e page)))
          (ExpectVisible page entry_element None) = Single)"
proof -
  have shape: "h \<in> set (spacing_outcomes e)" and agrees: "consistent e [] h"
    and out: "stdout (spacing_final e) = spacing_printed e h"
    unfolding h_def by (rule spacing_shape spacing_consistent spacing_stdout_history)+
  note report = spacing_printed_def status_line_def failure_def listener_lines Let_def
  have body: "history (snd (verify_spacing e page w)) = history w @ ok (spacing_calls e page) \<and>
        observe e (history w @ ok (takeWhile (\<lambda>c. c \<noteq> ExpectVisible page entry_element None)
                                     (spacing_calls e page)))
          (ExpectVisible page entry_element None) = Single"
    if "fst (verify_spacing e page w) = Inr ()"
    using verify_spacing_success [OF that]
    by (simp add: spacing_calls_def ok_def fails_def)
  show ?thesis
    unfolding out title_def content_def save_def entry_def
    apply (intro conjI)
    subgoal by (simp add: dream_title_def)
    subgoal by (simp add: dream_content_def)
    subgoal by (simp add: entry_element_def dream_title_def)
    subgoal using shape by (simp add: spacing_paths, elim disjE, simp_all add: reading)
    subgoal using shape by (simp add: spacing_paths, elim disjE, simp_all add: reading)
    subgoal using shape by (simp add: spacing_paths, elim disjE, simp_all add: reading)
    subgoal using shape by (simp add: spacing_paths, elim disjE, simp_all add: reading)
    subgoal using shape by (simp add: spacing_paths, elim disjE, simp_all add: reading)
    subgoal using shape by (simp add: spacing_paths, elim disjE, simp_all add: reading)
    subgoal using shape by (simp add: spacing_paths, elim disjE, simp_all add: reading)
    subgoal using shape agrees by (simp add: spacing_paths, elim disjE, simp_all add: reading)
    subgoal using shape agrees by (simp add: spacing_paths, elim disjE, simp_all add: reading)
    subgoal using shape agrees
      by (simp add: spacing_paths, elim disjE, simp_all add: reading report)
    subgoal using body by (rule impI)
    done
qed

theorem save_then_entry_asserted_witness:
  "issued (history (spacing_final passing)) (LocatorScreenshot 0 entry_element verification_png) \<and>
   returned_before (Click 0 (Role ''button'' ''Save Dream'')) (ExpectVisible 0 entry_element None)
     (history (spacing_final passing)) \<and>
   seen passing (history (spacing_final passing)) (ExpectVisible 0 entry_element None) = Single \<and>
   success_line \<in> set (stdout (spacing_final passing)) \<and>
   fst (verify_spacing passing 0 initial) = Inr () \<and>
   history (snd (verify_spacing passing 0 initial)) = ok (spacing_calls passing 0)"
  using save_then_entry_asserted [where e = passing and page = 0 and w = initial]
  by (simp add: passing_spacing passing_verify passing_report history_initial spacing_pre_def
        spacing_calls_def ok_def issued_def returned_def)

text \<open>
  C3. In \<^verbatim>\<open>verify_spacing.py\<close>, once the entry assertion has returned, the script
  dispatches a \<^verbatim>\<open>click\<close> event on the \<^verbatim>\<open>Edit\<close> button inside the entry element, then
  asserts that a text area inside the same entry element is visible within 10000 ms, then
  takes the screenshot: each step is issued as soon as the one before it has returned.
  The only simulated click of the run is the one on \<^verbatim>\<open>Save Dream\<close>, and the only event
  dispatched is this one. The text-area assertion returns exactly when it saw a single
  visible match. The script reports success exactly when the screenshot, the last step of
  \<^verbatim>\<open>verify_spacing(page)\<close>, returned, hence only if the text area was seen; and
  \<^verbatim>\<open>verify_spacing(page)\<close>, started in any world \<open>w\<close>, returns only after exactly its
  calls, with the text area seen as the single visible match.
\<close>

theorem edit_dispatched_then_textarea_asserted:
  fixes e :: env and page :: nat and w :: world
  defines "h \<equiv> history (spacing_final e)"
    and "entry \<equiv> ExpectVisible 0 entry_element None"
    and "edit \<equiv> DispatchEvent 0 (Inside entry_element (Role ''button'' ''Edit'')) ''click''"
    and "area \<equiv> ExpectVisible 0 (Inside entry_element (Css ''textarea'')) (Some 10000)"
    and "shot \<equiv> LocatorScreenshot 0 entry_element verification_png"
  shows
    "(returned h entry \<longrightarrow> issued h edit) \<and>
     (issued h edit \<longrightarrow> returned_before entry edit h) \<and>
     (\<forall>p l. issued h (Click p l) \<longrightarrow> l = Role ''button'' ''Save Dream'') \<and>
     (\<forall>p l ty. issued h (DispatchEvent p l ty) \<longrightarrow> DispatchEvent p l ty = edit) \<and>
     (returned h edit \<longrightarrow> issued h area) \<and>
     (issued h area \<longrightarrow>
        returned_before edit area h \<and> (returned h area \<longleftrightarrow> seen e h area = Single)) \<and>
     (returned h area \<longrightarrow> issued h shot) \<and>
     (issued h shot \<longrightarrow> returned_before area shot h) \<and>
     (returned h shot \<longrightarrow> returned_before edit area h \<and> seen e h area = Single) \<and>
     success_line = ''Verification script ran successfully.'' \<and>
     (success_line \<in> set (stdout (spacing_final e)) \<longleftrightarrow> returned h shot) \<and>
     (success_line \<in> set (stdout (spacing_final e)) \<longrightarrow>
        returned h edit \<and> returned h area \<and> seen e h area = Single) \<and>
     (fst (verify_spacing e page w) = Inr () \<longrightarrow>
        history (snd (verify_spacing e page w)) = history w @ ok (spacing_calls e page) \<and>
        observe e
          (history w @
           ok (takeWhile
                 (\<lambda>c. c \<noteq> ExpectVisible page (Inside entry_element (Css ''textarea'')) (Some 10000))
                 (spacing_calls e page)))
          (ExpectVisible page (Inside entry_element (Css ''textarea'')) (Some 10000)) = Single)"
proof -
  have shape: "h \<in> set (spacing_outcomes e)" and agrees: "consistent e [] h"
    and out: "stdout (spacing_final e) = spacing_printed e h"
    unfolding h_def by (rule spacing_shape spacing_consistent spacing_stdout_history)+
  note report = spacing_printed_def status_line_def failure_def listener_lines Let_def
  have body: "history (snd (verify_spacing e page w)) = history w @ ok (spacing_calls e page) \<and>
        observe e
          (history w @
           ok (takeWhile
                 (\<lambda>c. c \<noteq> ExpectVisible page (Inside entry_element (Css ''textarea'')) (Some 10000))
                 (spacing_calls e page)))
          (ExpectVisible page (Inside entry_element (Css ''textarea'')) (Some 10000)) = Single"
    if "fst (verify_spacing e page w) = Inr ()"
    using verify_spacing_success [OF that]
    by (simp add: spacing_calls_def ok_def fails_def)
  show ?thesis
    unfolding out entry_def edit_def area_def shot_def
    apply (intro conjI)
    subgoal using shape by (simp add: spacing_paths, elim disjE, simp_all add: reading)
    subgoal using shape by (simp add: spacing_paths, elim disjE, simp_all add: reading)
    subgoal using shape by (simp add: spacing_paths, elim disjE, simp_all add: reading)
    subgoal using shape by (simp add: spacing_paths, elim disjE, simp_all add: reading)
    subgoal using shape by (simp add: spacing_paths, elim disjE, simp_all add: reading)
    subgoal using shape agrees by (simp add: spacing_paths, elim disjE, simp_all add: reading)
    subgoal using shape by (simp add: spacing_paths, elim disjE, simp_all add: reading)
    subgoal using shape by (simp add: spacing_paths, elim disjE, simp_all add: reading)
    subgoal using shape agrees by (simp add: spacing_paths, elim disjE, simp_all add: reading)
    subgoal by (rule success_line_def)
    subgoal using shape
      by (simp add: spacing_paths, elim disjE, simp_all add: reading report)
    subgoal using shape agrees
      by (simp add: spacing_paths, elim disjE, simp_all add: reading report)
    subgoal using body by (rule impI)
    done
qed

theorem edit_dispatched_then_textarea_asserted_witness:
  "returned (history (spacing_final passing)) (LocatorScreenshot 0 entry_element verification_png) \<and>
   issued (history (spacing_final passing))
     (DispatchEvent 0 (Inside entry_element (Role ''button'' ''Edit'')) ''click'') \<and>
   seen passing (history (spacing_final passing))
     (ExpectVisible 0 (Inside entry_element (Css ''textarea'')) (Some 10000)) = Single \<and>
   success_line \<in> set (stdout (spacing_final passing)) \<and>
   fst (verify_spacing passing 0 initial) = Inr () \<and>
   history (snd (verify_spacing passing 0 initial)) = ok (spacing_calls passing 0)"
  using edit_dispatched_then_textarea_asserted [where e = passing and page = 0 and w = initial]
  by (simp add: passing_spacing passing_verify passing_report history_initial spacing_pre_def
        spacing_calls_def ok_def issued_def returned_def)

text \<open>
  C4 (as amended). \<^verbatim>\<open>verify_flash.py\<close> exits with status zero exactly when every
  operation returned and with status one whenever one raised, be it a library call or
  \<^verbatim>\<open>os.path.abspath\<close> in an invocation directory that no longer exists.
  \<^verbatim>\<open>verify_spacing.py\<close> exits with status zero when every step completes, and also when
  an operation of \<^verbatim>\<open>verify_spacing(page)\<close> raises, \<^verbatim>\<open>os.path.abspath\<close> included: that
  exception is caught and reported on standard output. It exits with status one exactly
  when starting the driver, the launch, \<^verbatim>\<open>browser.new_page()\<close> or \<^verbatim>\<open>browser.close()\<close>
  raises.
\<close>

theorem exit_status_of_scripts:
  fixes e :: env
  defines "h \<equiv> history (flash_final e)" and "h' \<equiv> history (spacing_final e)"
  shows
    "(exit_status (fst (main e initial)) = 0 \<longleftrightarrow> h = ok (flash_calls e)) \<and>
     (exit_status (fst (main e initial)) = 1 \<longleftrightarrow> (\<exists>c. raised h c)) \<and>
     (cwd e = None \<and> returned h (Launch None) \<longrightarrow>
        raised h (Abspath ''index.html'') \<and> exit_status (fst (main e initial)) = 1) \<and>
     (exit_status (fst (spacing_script e initial)) = 0 \<longleftrightarrow>
        \<not> raised h' StartDriver \<and> \<not> raised h' (Launch (Some True)) \<and>
        \<not> raised h' BrowserNewPage \<and> \<not> raised h' BrowserClose) \<and>
     (exit_status (fst (spacing_script e initial)) = 1 \<longleftrightarrow>
        raised h' StartDriver \<or> raised h' (Launch (Some True)) \<or>
        raised h' BrowserNewPage \<or> raised h' BrowserClose) \<and>
     (h' = ok (spacing_pre @ spacing_calls e 0 @ [BrowserClose]) \<longrightarrow>
        exit_status (fst (spacing_script e initial)) = 0) \<and>
     (\<forall>c \<in> set (spacing_calls e 0). raised h' c \<longrightarrow>
        (exit_status (fst (spacing_script e initial)) = 0 \<longleftrightarrow> \<not> raised h' BrowserClose)) \<and>
     (\<forall>c \<in> set (spacing_calls e 0). raised h' c \<longrightarrow>
        failed_line (message e c) \<in> set (stdout (spacing_final e))) \<and>
     (cwd e = None \<and> returned h' BrowserNewPage \<longrightarrow>
        raised h' (Abspath ''index.html'') \<and>
        (exit_status (fst (spacing_script e initial)) = 0 \<longleftrightarrow> \<not> raised h' BrowserClose))"
proof -
  have shape: "h \<in> set (outcomes (flash_calls e))" and agrees: "consistent e [] h"
    and shape': "h' \<in> set (spacing_outcomes e)" and agrees': "consistent e [] h'"
    and r: "fst (main e initial) = last_result e h"
    and r': "fst (spacing_script e initial) = last_result e h'"
    and out: "stdout (spacing_final e) = spacing_printed e h'"
    unfolding h_def h'_def
    by (rule flash_shape flash_consistent spacing_shape spacing_consistent flash_result
          spacing_result_last spacing_stdout_history)+
  note result = last_result_def exit_status_def
  show ?thesis
    unfolding r r' out
    apply (intro conjI)
    subgoal using shape by (simp add: flash_paths, elim disjE, simp_all add: reading result)
    subgoal using shape by (simp add: flash_paths, elim disjE, simp_all add: reading result)
    subgoal using shape agrees
      by (simp add: flash_paths, elim disjE, simp_all add: reading result)
    subgoal using shape' by (simp add: spacing_paths, elim disjE, simp_all add: reading result)
    subgoal using shape' by (simp add: spacing_paths, elim disjE, simp_all add: reading result)
    subgoal using shape' by (simp add: spacing_paths, elim disjE, simp_all add: reading result)
    subgoal using shape' by (simp add: spacing_paths, elim disjE, simp_all add: reading result)
    subgoal using shape'
      by (simp add: spacing_paths, elim disjE,
          simp_all add: reading spacing_printed_def status_line_def failure_def Let_def)
    subgoal using shape' agrees'
      by (simp add: spacing_paths, elim disjE, simp_all add: reading result)
    done
qed

theorem exit_status_of_scripts_witness:
  "history (spacing_final passing) = ok (spacing_pre @ spacing_calls passing 0 @ [BrowserClose]) \<and>
   exit_status (fst (spacing_script passing initial)) = 0 \<and>
   exit_status (fst (main passing initial)) = 0 \<and>
   ExpectVisible 0 entry_element None \<in> set (spacing_calls blank_page 0) \<and>
   raised (history (spacing_final blank_page)) (ExpectVisible 0 entry_element None) \<and>
   failed_line (message blank_page (ExpectVisible 0 entry_element None))
     \<in> set (stdout (spacing_final blank_page)) \<and>
   (\<exists>c. raised (history (flash_final blank_page)) c) \<and>
   exit_status (fst (main blank_page initial)) = 1 \<and>
   cwd no_directory = None \<and>
   returned (history (flash_final no_directory)) (Launch None) \<and>
   exit_status (fst (main no_directory initial)) = 1 \<and>
   returned (history (spacing_final no_directory)) BrowserNewPage \<and>
   exit_status (fst (spacing_script no_directory initial)) = 0"
  using exit_status_of_scripts [of passing] exit_status_of_scripts [of blank_page]
    exit_status_of_scripts [of no_directory]
  by (simp add: passing_spacing passing_flash blank_spacing blank_flash no_directory_flash
        no_directory_spacing spacing_pre_def spacing_calls_def ok_def raised_def returned_def)
     (simp add: no_directory_def)

theorem spacing_exits_zero_after_failure:
  "raised (history (spacing_final blank_page)) (ExpectVisible 0 entry_element None) \<and>
   exit_status (fst (spacing_script blank_page initial)) = 0"
  by (simp add: spacing_result_last blank_spacing last_result_def exit_status_def raised_def
        spacing_pre_def spacing_calls_def ok_def)

text \<open>
  C5. In both scripts the screenshot of a scenario is written only after the visibility
  assertions of that scenario have returned; when an assertion of a scenario raises, the
  screenshot of that scenario is not written and no later step of the scenario is issued.
  In \<^verbatim>\<open>verify_flash.py\<close> nothing at all is issued after the failing assertion; in
  \<^verbatim>\<open>verify_spacing.py\<close> the only later call is the \<^verbatim>\<open>browser.close()\<close> of the script's
  \<open>finally\<close> block, which is not part of the scenario.
\<close>

theorem screenshots_follow_assertions:
  fixes e :: env
  defines "h \<equiv> history (flash_final e)" and "b \<equiv> browser (flash_final e)"
    and "h' \<equiv> history (spacing_final e)" and "b' \<equiv> browser (spacing_final e)"
    and "journal \<equiv> ExpectVisible 0 (Css ''#journalTab'') (Some 5000)"
    and "lock \<equiv> ExpectVisible 1 (Css ''#lockTab'') (Some 5000)"
    and "no_journal \<equiv> ExpectNotVisible 1 (Css ''#journalTab'') None"
    and "entry \<equiv> ExpectVisible 0 entry_element None"
    and "area \<equiv> ExpectVisible 0 (Inside entry_element (Css ''textarea'')) (Some 10000)"
  shows
    "(unlocked_view \<in> set (files b) \<longrightarrow>
        returned_before journal (PageScreenshot 0 unlocked_view) h) \<and>
     (locked_view \<in> set (files b) \<longrightarrow>
        returned_before lock (PageScreenshot 1 locked_view) h \<and>
        returned_before no_journal (PageScreenshot 1 locked_view) h) \<and>
     (verification_png \<in> set (files b') \<longrightarrow>
        returned_before entry (LocatorScreenshot 0 entry_element verification_png) h' \<and>
        returned_before area (LocatorScreenshot 0 entry_element verification_png) h') \<and>
     (raised h journal \<longrightarrow> after journal h = [] \<and> unlocked_view \<notin> set (files b)) \<and>
     (raised h lock \<longrightarrow> after lock h = [] \<and> locked_view \<notin> set (files b)) \<and>
     (raised h no_journal \<longrightarrow> after no_journal h = [] \<and> locked_view \<notin> set (files b)) \<and>
     (raised h' entry \<longrightarrow>
        map fst (after entry h') = [BrowserClose] \<and> verification_png \<notin> set (files b')) \<and>
     (raised h' area \<longrightarrow>
        map fst (after area h') = [BrowserClose] \<and> verification_png \<notin> set (files b'))"
proof -
  have shape: "h \<in> set (outcomes (flash_calls e))"
    and shape': "h' \<in> set (spacing_outcomes e)"
    and b: "b = (replay h (browser initial))\<lparr>is_open := False\<rparr>"
       "b' = (replay h' (browser initial))\<lparr>is_open := False\<rparr>"
    unfolding h_def h'_def b_def b'_def
    by (rule flash_shape spacing_shape flash_replay spacing_replay)+
  show ?thesis
    unfolding b journal_def lock_def no_journal_def entry_def area_def
    apply (intro conjI)
    subgoal using shape by (simp add: flash_paths, elim disjE, simp_all add: reading)
    subgoal using shape by (simp add: flash_paths, elim disjE, simp_all add: reading)
    subgoal using shape' by (simp add: spacing_paths, elim disjE, simp_all add: reading)
    subgoal using shape by (simp add: flash_paths, elim disjE, simp_all add: reading)
    subgoal using shape by (simp add: flash_paths, elim disjE, simp_all add: reading)
    subgoal using shape by (simp add: flash_paths, elim disjE, simp_all add: reading)
    subgoal using shape' by (simp add: spacing_paths, elim disjE, simp_all add: reading)
    subgoal using shape' by (simp add: spacing_paths, elim disjE, simp_all add: reading)
    done
qed

theorem screenshots_follow_assertions_witness:
  "locked_view \<in> set (files (browser (flash_final passing))) \<and>
   returned_before (ExpectNotVisible 1 (Css ''#journalTab'') None) (PageScreenshot 1 locked_view)
     (history (flash_final passing)) \<and>
   verification_png \<in> set (files (browser (spacing_final passing))) \<and>
   raised (history (flash_final blank_page)) (ExpectVisible 0 (Css ''#journalTab'') (Some 5000)) \<and>
   unlocked_view \<notin> set (files (browser (flash_final blank_page))) \<and>
   raised (history (spacing_final blank_page)) (ExpectVisible 0 entry_element None) \<and>
   map fst (after (ExpectVisible 0 entry_element None) (history (spacing_final blank_page)))
     = [BrowserClose] \<and>
   verification_png \<notin> set (files (browser (spacing_final blank_page)))"
  using screenshots_follow_assertions [of passing] screenshots_follow_assertions [of blank_page]
  by (simp add: flash_replay spacing_replay passing_flash passing_spacing blank_flash blank_spacing
        flash_paths spacing_pre_def spacing_calls_def reading)

text \<open>
  C6. On every exit path of each script, normal completion or an exception raised by any
  step, the browser process is not open when the script ends, and the driver is stopped.
  \<^verbatim>\<open>verify_spacing.py\<close> calls \<^verbatim>\<open>browser.close()\<close> in its \<open>finally\<close> block, as its last
  call on every path on which the page was created. \<^verbatim>\<open>verify_flash.py\<close> calls
  \<^verbatim>\<open>browser.close()\<close> only after the last screenshot has returned; on its other paths
  the browser it launched is still open when the body is left, and is ended by leaving the
  \<^verbatim>\<open>async with\<close> block, which stops the driver and the browser the driver launched.
\<close>

theorem browser_terminated_on_every_path:
  fixes e :: env
  defines "h \<equiv> history (flash_final e)" and "h' \<equiv> history (spacing_final e)"
  shows
    "\<not> is_open (browser (flash_final e)) \<and> \<not> driver_running (flash_final e) \<and>
     \<not> is_open (browser (spacing_final e)) \<and> \<not> driver_running (spacing_final e) \<and>
     (issued h BrowserClose \<longleftrightarrow> returned h (PageScreenshot 1 locked_view)) \<and>
     (fst (main e initial) = Inr () \<longrightarrow> returned h BrowserClose) \<and>
     (issued h' BrowserClose \<longleftrightarrow> returned h' BrowserNewPage) \<and>
     (returned h' BrowserNewPage \<longrightarrow> fst (last h') = BrowserClose) \<and>
     (is_open (replay h (browser initial)) \<longleftrightarrow>
        returned h (Launch None) \<and> \<not> returned h BrowserClose) \<and>
     (is_open (replay h' (browser initial)) \<longleftrightarrow>
        returned h' (Launch (Some True)) \<and> \<not> returned h' BrowserClose)"
proof -
  have shape: "h \<in> set (outcomes (flash_calls e))"
    and shape': "h' \<in> set (spacing_outcomes e)"
    and r: "fst (main e initial) = last_result e h"
    unfolding h_def h'_def
    by (rule flash_shape spacing_shape flash_result)+
  show ?thesis
    unfolding r
    apply (intro conjI)
    subgoal by (simp add: flash_replay)
    subgoal by (rule flash_running)
    subgoal by (simp add: spacing_replay)
    subgoal by (rule spacing_running_final)
    subgoal using shape by (simp add: flash_paths, elim disjE, simp_all add: reading)
    subgoal using shape by (simp add: flash_paths, elim disjE, simp_all add: reading last_result_def)
    subgoal using shape' by (simp add: spacing_paths, elim disjE, simp_all add: reading)
    subgoal using shape' by (simp add: spacing_paths, elim disjE, simp_all add: reading)
    subgoal using shape by (simp add: flash_paths, elim disjE, simp_all add: reading)
    subgoal using shape' by (simp add: spacing_paths, elim disjE, simp_all add: reading)
    done
qed

theorem browser_terminated_on_every_path_witness:
  "fst (main passing initial) = Inr () \<and>
   returned (history (flash_final passing)) BrowserClose \<and>
   \<not> is_open (browser (flash_final passing)) \<and>
   returned (history (spacing_final blank_page)) BrowserNewPage \<and>
   fst (last (history (spacing_final blank_page))) = BrowserClose \<and>
   \<not> is_open (browser (spacing_final blank_page)) \<and>
   raised (history (flash_final blank_page)) (ExpectVisible 0 (Css ''#journalTab'') (Some 5000)) \<and>
   \<not> issued (history (flash_final blank_page)) BrowserClose \<and>
   is_open (replay (history (flash_final blank_page)) (browser initial)) \<and>
   \<not> is_open (browser (flash_final blank_page))"
  using browser_terminated_on_every_path [of passing]
    browser_terminated_on_every_path [of blank_page]
  by (simp add: flash_result last_result_def passing_flash blank_spacing blank_flash flash_paths
        spacing_pre_def spacing_calls_def returned_def raised_def issued_def)

text \<open>
  C7 (as amended). In the fresh-state scenario of \<^verbatim>\<open>verify_flash.py\<close> the page is loaded
  with no initialization script, and the scenario reaches its end only if \<^verbatim>\<open>#journalTab\<close>
  became visible within 5000 ms. That is the only assertion made on this page: nothing
  is asserted about \<^verbatim>\<open>#lockTab\<close>.
\<close>

theorem fresh_scenario_asserts_journal_only:
  fixes e :: env
  defines "h \<equiv> history (flash_final e)" and "b \<equiv> browser (flash_final e)"
    and "journal \<equiv> ExpectVisible 0 (Css ''#journalTab'') (Some 5000)"
  shows
    "(returned h (Goto 0 (url e)) \<longrightarrow> hd (loads b) = (0, []) \<and> issued h journal) \<and>
     (returned h (PageScreenshot 0 unlocked_view) \<longrightarrow> seen e h journal = Single) \<and>
     (\<forall>l t. issued h (ExpectVisible 0 l t) \<longrightarrow> ExpectVisible 0 l t = journal) \<and>
     (\<forall>l t. \<not> issued h (ExpectNotVisible 0 l t))"
proof -
  have shape: "h \<in> set (outcomes (flash_calls e))" and agrees: "consistent e [] h"
    and b: "b = (replay h (browser initial))\<lparr>is_open := False\<rparr>"
    unfolding h_def b_def by (rule flash_shape flash_consistent flash_replay)+
  show ?thesis
    unfolding b journal_def
    apply (intro conjI)
    subgoal using shape by (simp add: flash_paths, elim disjE, simp_all add: reading)
    subgoal using shape agrees by (simp add: flash_paths, elim disjE, simp_all add: reading)
    subgoal using shape by (simp add: flash_paths, elim disjE, simp_all add: reading)
    subgoal using shape by (simp add: flash_paths, elim disjE, simp_all add: reading)
    done
qed

theorem fresh_scenario_asserts_journal_only_witness:
  "returned (history (flash_final passing)) (PageScreenshot 0 unlocked_view) \<and>
   hd (loads (browser (flash_final passing))) = (0, []) \<and>
   seen passing (history (flash_final passing)) (ExpectVisible 0 (Css ''#journalTab'') (Some 5000))
     = Single"
  using fresh_scenario_asserts_journal_only [of passing]
  by (simp add: passing_flash flash_paths returned_def issued_def)

theorem fresh_scenario_ignores_lock_tab:
  "returned (history (flash_final both_tabs)) (PageScreenshot 0 unlocked_view) \<and>
   fst (main both_tabs initial) = Inr () \<and>
   observe both_tabs
     (ok [StartDriver, Launch None, Abspath ''index.html'', BrowserNewPage, Goto 0 (url both_tabs)])
     (ExpectVisible 0 (Css ''#lockTab'') (Some 5000)) = Single \<and>
   observe both_tabs
     (ok [StartDriver, Launch None, Abspath ''index.html'', BrowserNewPage, Goto 0 (url both_tabs)])
     (ExpectNotVisible 0 (Css ''#lockTab'') None) \<noteq> Hidden"
  by (simp add: flash_result both_tabs_flash last_result_def flash_paths returned_def)
     (simp add: both_tabs_def)

text \<open>
  C8 (as amended). \<^verbatim>\<open>verify_spacing.py\<close> registers a console listener before it
  navigates, and every console message its page emits during a call from the navigation
  on is printed to standard output with the prefix \<^verbatim>\<open>Browser Console: \<close>.
  \<^verbatim>\<open>verify_flash.py\<close> registers no listener and prints nothing.
\<close>

theorem console_forwarded_by_spacing_only:
  fixes e :: env
  defines "h' \<equiv> history (spacing_final e)"
  shows
    "stdout (flash_final e) = [] \<and>
     (\<forall>text. (0, text) \<in> set (emitted e (take 3 h') (drop 3 h')) \<longrightarrow>
        ''Browser Console: '' @ text \<in> set (stdout (spacing_final e)))"
proof -
  have shape': "h' \<in> set (spacing_outcomes e)"
    and out: "stdout (spacing_final e) = spacing_printed e h'"
    unfolding h'_def by (rule spacing_shape spacing_stdout_history)+
  have "console_listener m \<in> set (spacing_printed e h')"
    if "(0, m) \<in> set (emitted e (take 3 h') (drop 3 h'))" for m
    using shape' that
    by (simp add: spacing_paths, elim disjE,
        simp_all add: reading spacing_printed_def listener_lines Let_def, blast+)
  then show ?thesis
    by (simp add: flash_stdout out console_listener_def)
qed

theorem console_forwarded_by_spacing_only_witness:
  "(0, ''ready'') \<in> set (emitted chatty (take 3 (history (spacing_final chatty)))
                         (drop 3 (history (spacing_final chatty)))) \<and>
   ''Browser Console: ready'' \<in> set (stdout (spacing_final chatty))"
  using console_forwarded_by_spacing_only [of chatty]
  by (simp add: chatty_spacing spacing_pre_def spacing_calls_def ok_def)
     (simp add: chatty_def arriving_def)

theorem flash_drops_console_output:
  "returned (history (flash_final chatty)) (Goto 0 (url chatty)) \<and>
   console chatty (ok [StartDriver, Launch None, Abspath ''index.html'', BrowserNewPage])
     (Goto 0 (url chatty))
     = [(0, ''ready'')] \<and>
   stdout (flash_final chatty) = []"
  by (simp add: flash_stdout chatty_flash flash_paths returned_def) (simp add: chatty_def)

text \<open>
  C9. In \<^verbatim>\<open>verify_flash.py\<close> the only initialization script ever registered is the seeding
  script, and it is registered on context 1, which the locked-state scenario creates for
  itself after the page of the first scenario has been closed. The first page lives in
  context 0, which never carries a script; the only load that runs the seeding script is
  that of the second page.
\<close>

theorem seeding_confined_to_locked_context:
  fixes e :: env
  defines "h \<equiv> history (flash_final e)" and "b \<equiv> browser (flash_final e)"
  shows
    "(\<forall>c s. issued h (AddInitScript c s) \<longrightarrow>
        c = 1 \<and> s = seed_script \<and>
        returned_before (PageClose 0) BrowserNewContext h \<and>
        returned_before BrowserNewContext (AddInitScript 1 seed_script) h) \<and>
     (\<forall>c. c \<noteq> 1 \<longrightarrow> init_scripts b c = []) \<and>
     page_context b 0 = 0 \<and>
     (returned h (ContextNewPage 1) \<longrightarrow> page_context b 1 = 1 \<and> n_contexts b = 2) \<and>
     (\<forall>p ss. (p, ss) \<in> set (loads b) \<longrightarrow> (p = 0 \<and> ss = []) \<or> (p = 1 \<and> ss = [seed_script]))"
proof -
  have shape: "h \<in> set (outcomes (flash_calls e))"
    and b: "b = (replay h (browser initial))\<lparr>is_open := False\<rparr>"
    unfolding h_def b_def by (rule flash_shape flash_replay)+
  show ?thesis
    unfolding b
    apply (intro conjI)
    subgoal using shape by (simp add: flash_paths, elim disjE, simp_all add: reading)
    subgoal using shape by (simp add: flash_paths, elim disjE, simp_all add: reading)
    subgoal using shape by (simp add: flash_paths, elim disjE, simp_all add: reading)
    subgoal using shape by (simp add: flash_paths, elim disjE, simp_all add: reading)
    subgoal using shape by (simp add: flash_paths, elim disjE, simp_all add: reading)
    done
qed

theorem seeding_confined_to_locked_context_witness:
  "issued (history (flash_final passing)) (AddInitScript 1 seed_script) \<and>
   returned_before (PageClose 0) BrowserNewContext (history (flash_final passing)) \<and>
   init_scripts (browser (flash_final passing)) 0 = [] \<and>
   page_context (browser (flash_final passing)) 0 = 0 \<and>
   page_context (browser (flash_final passing)) 1 = 1 \<and>
   (1, [seed_script]) \<in> set (loads (browser (flash_final passing)))"
  using seeding_confined_to_locked_context [of passing]
  by (simp add: flash_replay passing_flash flash_paths reading)

text \<open>
  C10. In \<^verbatim>\<open>verify_flash.py\<close>, when the journal-tab assertion of the first scenario
  raises, the run ends there: no context is created, no initialization script is
  registered, no further page is created or loaded, neither assertion of the second
  scenario is issued, and \<^verbatim>\<open>locked_view.png\<close> is not written.
\<close>

theorem locked_scenario_skipped_after_journal_failure:
  fixes e :: env
  defines "h \<equiv> history (flash_final e)" and "b \<equiv> browser (flash_final e)"
    and "journal \<equiv> ExpectVisible 0 (Css ''#journalTab'') (Some 5000)"
  shows
    "raised h journal \<longrightarrow>
       h = ok [StartDriver, Launch None, Abspath ''index.html'', BrowserNewPage, Goto 0 (url e)] @
           [(journal, False)] \<and>
       \<not> issued h BrowserNewContext \<and>
       (\<forall>c s. \<not> issued h (AddInitScript c s)) \<and>
       (\<forall>c. \<not> issued h (ContextNewPage c)) \<and>
       (\<forall>p u. issued h (Goto p u) \<longrightarrow> p = 0) \<and>
       (\<forall>p l t. issued h (ExpectVisible p l t) \<longrightarrow> ExpectVisible p l t = journal) \<and>
       (\<forall>p l t. \<not> issued h (ExpectNotVisible p l t)) \<and>
       (\<forall>p path. \<not> issued h (PageScreenshot p path)) \<and>
       n_contexts b = 1 \<and> (\<forall>c. init_scripts b c = []) \<and>
       locked_view \<notin> set (files b)"
proof -
  have shape: "h \<in> set (outcomes (flash_calls e))"
    and b: "b = (replay h (browser initial))\<lparr>is_open := False\<rparr>"
    unfolding h_def b_def by (rule flash_shape flash_replay)+
  show ?thesis
    unfolding b journal_def
    using shape by (simp add: flash_paths, elim disjE, simp_all add: reading)
qed

theorem locked_scenario_skipped_after_journal_failure_witness:
  "raised (history (flash_final blank_page)) (ExpectVisible 0 (Css ''#journalTab'') (Some 5000)) \<and>
   \<not> issued (history (flash_final blank_page)) BrowserNewContext \<and>
   n_contexts (browser (flash_final blank_page)) = 1 \<and>
   locked_view \<notin> set (files (browser (flash_final blank_page)))"
  using locked_scenario_skipped_after_journal_failure [of blank_page]
  by (simp add: flash_replay blank_flash ok_def reading)

end
